theory Spec2Isabelle
  imports Main "HOL-Library.Sublist"
begin

section \<open>The Fortran front end of DaCe: AST to SDFG translation\<close>

text \<open>
  A shallow embedding of \<^verbatim>\<open>dace/frontend/fortran/fortran_parser.py\<close>, class
  \<^verbatim>\<open>AST_translator\<close>. The translator object is a record that every handler takes and
  returns; a raised exception is the left summand of the result. SDFG objects are
  compared by identity in the source (they key the translator's dictionaries and are
  stored in the worklist of unallocated arrays), so a graph is addressed by a handle
  \<open>graph_id\<close> into the store \<open>graphs\<close>, and a state of a graph by its position in the
  graph's list of states.
\<close>

subsection \<open>Exceptions\<close>

text \<open>
  The exceptions the translator raises, named after the error taxonomy of the
  specification where it has a name for them:
  \<^item> \<open>UnknownType\<close>: \<^verbatim>\<open>ValueError("Unknown type " + type)\<close>;
  \<^item> \<open>UnknownVariable\<close>: \<^verbatim>\<open>ValueError("Unknown variable " + name)\<close>;
  \<^item> \<open>ArityMismatch\<close>: \<^verbatim>\<open>ValueError("number of parameters does not match the function signature")\<close>;
  \<^item> \<open>AmbiguousAllocation\<close>: \<^verbatim>\<open>ValueError("Multiple unallocated arrays with the same name")\<close>;
  \<^item> \<open>UnsupportedConstruct\<close>: a raised \<^verbatim>\<open>NotImplementedError\<close>;
  \<^item> \<open>PyKeyError\<close>, \<open>PyNameError\<close>, \<open>PyTypeError\<close>, \<open>PyIndexError\<close>, \<open>PyAttributeError\<close>:
    the exception Python itself raises for a missing dictionary key, an unbound local
    variable, an argument of the wrong type, a list index out of range and a missing
    attribute.
\<close>

datatype error =
    UnknownType string
  | UnknownVariable string
  | ArityMismatch
  | AmbiguousAllocation
  | UnsupportedConstruct
  | PyKeyError
  | PyNameError
  | PyTypeError
  | PyIndexError
  | PyAttributeError

subsection \<open>Data containers\<close>

text \<open>
  A dimension size is a symbolic integer expression (the result of
  \<^verbatim>\<open>sym.pystr_to_symbolic\<close>): an integer, or any other expression, kept as its text.
\<close>

datatype symexpr = IntE int | SymE string

datatype dtype = BasicType string | StructureType string

datatype desc_kind = ScalarDesc | ArrayDesc | ViewDesc | StructureDesc

record data_desc =
  kind :: desc_kind
  dtype :: dtype
  shape :: "symexpr list"
  strides :: "symexpr list"
  offset :: "int list"
  storage :: string
  transient :: bool

subsection \<open>States, dataflow and graphs\<close>

text \<open>
  One element of a \<^verbatim>\<open>subsets.Range\<close>: \<open>Point i\<close> is \<^verbatim>\<open>(i, i, 1)\<close>, \<open>OneTo s\<close> is
  \<^verbatim>\<open>(1, s, 1)\<close> and \<open>ZeroBelow s\<close> is \<^verbatim>\<open>(0, s - 1, 1)\<close>.
\<close>

datatype range_elem = Point symexpr | OneTo symexpr | ZeroBelow symexpr

text \<open>
  A memlet: \<open>Memlet_text d r\<close> carries the data name and a range given as text (what
  \<^verbatim>\<open>add_memlet_read\<close> and \<^verbatim>\<open>add_memlet_write\<close> receive), \<open>Memlet_view d s o\<close> is
  \<^verbatim>\<open>Memlet(f'{d}[{s}]->{o}')\<close>, and \<open>Memlet_subset d s\<close> is
  \<^verbatim>\<open>Memlet(expr=d, subset=s)\<close>.
\<close>

datatype memlet =
    Memlet_text string string
  | Memlet_view string "range_elem list" "range_elem list"
  | Memlet_subset string "range_elem list"

datatype node =
    AccessNode string
  | Tasklet string "string list" "string list"
  | NestedSDFG string "string list" "string list"

type_synonym node_id = nat

record dataflow_edge =
  df_src :: node_id
  src_conn :: "string option"
  df_dst :: node_id
  dst_conn :: "string option"
  df_memlet :: memlet

record sdfg_state =
  label :: string
  nodes :: "node list"
  dataflow :: "dataflow_edge list"

type_synonym state_id = nat

text \<open>
  \<^verbatim>\<open>InterstateEdge(condition, assignments)\<close> between two states; \<open>condition = None\<close> is
  the edge built without a condition.
\<close>

record interstate_edge =
  src :: state_id
  dst :: state_id
  condition :: "string option"
  assignments :: "(string \<times> string) list"

record sdfg =
  sdfg_name :: string
  states :: "sdfg_state list"
  edges :: "interstate_edge list"
  arrays :: "string \<rightharpoonup> data_desc"
  symbols :: "string \<rightharpoonup> dtype"

type_synonym graph_id = nat

subsection \<open>The translator object\<close>

text \<open>\<^verbatim>\<open>ast_utils.Context\<close>: the containers and constants known under a graph name.\<close>

record ast_context =
  containers :: "string list"
  constants :: "string \<rightharpoonup> string"

text \<open>
  The fields of \<^verbatim>\<open>AST_translator.__init__\<close> that the modelled handlers use. The
  dictionaries keyed by an SDFG are functions of the graph handle;
  \<^verbatim>\<open>name_mapping\<close> is a \<^verbatim>\<open>NameMap\<close>, which holds an empty mapping for a graph never seen.
  An entry of \<open>unallocated_arrays\<close> is the list
  \<^verbatim>\<open>[node.name, datatype, sdfg, transient]\<close>.
\<close>

record translator =
  graphs :: "graph_id \<Rightarrow> sdfg"
  globalsdfg :: graph_id
  registered_types :: "string \<rightharpoonup> dtype"
  transient_mode :: bool
  name_mapping :: "graph_id \<Rightarrow> string \<rightharpoonup> string"
  contexts :: "string \<rightharpoonup> ast_context"
  views :: nat
  libstates :: "string list"
  unallocated_arrays :: "(string \<times> dtype \<times> graph_id \<times> bool) list"
  all_array_names :: "string list"
  last_sdfg_states :: "graph_id \<rightharpoonup> state_id"
  last_loop_continues :: "graph_id \<rightharpoonup> state_id"
  last_loop_breaks :: "graph_id \<rightharpoonup> state_id"
  last_returns :: "graph_id \<rightharpoonup> state_id"

subsection \<open>The syntax tree\<close>

text \<open>
  The nodes of \<^verbatim>\<open>ast_internal_classes\<close> that the modelled handlers receive, over a
  type \<open>'e\<close> of expressions, which the translator only hands to the code writers.
  \<^item> \<open>BinOp_Node line col\<close>: an assignment with no embedded call, at a source position;
  \<^item> \<open>If_Stmt_Node cond body body_else line col\<close>;
  \<^item> \<open>For_Stmt_Node init cond iter body line col\<close>: \<open>init\<close> is \<open>Some (lval, rval)\<close> when
    \<^verbatim>\<open>node.init\<close> is a \<^verbatim>\<open>BinOp_Node\<close>, \<open>iter\<close> is \<open>Some rval\<close> when \<^verbatim>\<open>node.iter\<close> is one;
  \<^item> \<open>Allocate_Stmt_Node allocation_list\<close>: each allocation is a name and its shape list;
  \<^item> \<open>Pointer_Assignment_Stmt_Node name_pointer name_target\<close>;
  \<^item> \<open>Var_Decl_Node name type alloc sizes\<close>: \<open>alloc\<close> is true when the node has the
    attribute and it is true;
  \<^item> \<open>Decl_Stmt_Node vardecl\<close>.
  A body (an \<^verbatim>\<open>Execution_Part_Node\<close>) is the list of its statements.
\<close>

datatype 'e stmt =
    BinOp_Node nat nat
  | If_Stmt_Node 'e "'e stmt list" "'e stmt list" nat nat
  | For_Stmt_Node "(string \<times> 'e) option" 'e "'e option" "'e stmt list" nat nat
  | Break_Node
  | Write_Stmt_Node
  | Symbol_Array_Decl_Node
  | Allocate_Stmt_Node "(string \<times> 'e list) list"
  | Pointer_Assignment_Stmt_Node string string
  | Var_Decl_Node string string bool "'e list option"
  | Decl_Stmt_Node "'e stmt list"

text \<open>
  An actual argument of a call: a name, a subscripted array with its index list, or a
  literal. An index is a \<^verbatim>\<open>ParDecl_Node\<close> with its type (\<open>ALL\<close> selects the whole axis) or
  an expression.
\<close>

datatype 'e index = ParDecl_Node string | Index_Node 'e

datatype 'e arg =
    Name_Node string
  | Array_Subscript_Node string "'e index list"
  | Literal_Node string

text \<open>
  A \<^verbatim>\<open>Subroutine_Subprogram_Node\<close>: its name, the names of its formal parameters
  (\<^verbatim>\<open>node.args\<close>), its result type (\<open>Void\<close> or another type) and its execution part,
  which may be missing.
\<close>

datatype result_type = Void | Non_Void string

record 'e subroutine =
  sub_name :: string
  sub_args :: "string list"
  result_type :: result_type
  execution_part :: "'e stmt list option"

subsection \<open>Collaborators outside the translator\<close>

text \<open>
  Functions the translator calls whose code is not part of the translator: the two
  code writers (\<^verbatim>\<open>ProcessedWriter(sdfg, name_mapping).write_code\<close> and
  \<^verbatim>\<open>TaskletWriter([], [], sdfg, name_mapping).write_code\<close>, which see the graph and the
  name mapping), \<^verbatim>\<open>sym.pystr_to_symbolic\<close>, \<^verbatim>\<open>dat._prod\<close>, \<^verbatim>\<open>sdfg._find_new_name\<close>,
  the table \<^verbatim>\<open>ast_utils.fortrantypes2dacetypes\<close> and \<^verbatim>\<open>ast_utils.generate_memlet\<close>, which
  writes the range of an argument as text. They are parameters of the model.
\<close>

record 'e collaborators =
  processed_write_code :: "graph_id \<Rightarrow> sdfg \<Rightarrow> (graph_id \<Rightarrow> string \<rightharpoonup> string) \<Rightarrow> 'e \<Rightarrow> string"
  tasklet_write_code :: "graph_id \<Rightarrow> sdfg \<Rightarrow> (graph_id \<Rightarrow> string \<rightharpoonup> string) \<Rightarrow> 'e \<Rightarrow> string"
  pystr_to_symbolic :: "string \<Rightarrow> symexpr"
  prod :: "symexpr list \<Rightarrow> symexpr"
  find_new_name :: "sdfg \<Rightarrow> string \<Rightarrow> string"
  fortrantypes2dacetypes :: "string \<rightharpoonup> dtype"
  generate_memlet :: "'e arg \<Rightarrow> graph_id \<Rightarrow> translator \<Rightarrow> string"

subsection \<open>Building the state machine\<close>

text \<open>Python's \<^verbatim>\<open>str\<close> of a non-negative integer.\<close>

fun str_nat :: "nat \<Rightarrow> string" where
  "str_nat n =
     (if n < 10 then [''0123456789'' ! n]
      else str_nat (n div 10) @ [''0123456789'' ! (n mod 10)])"

declare str_nat.simps [simp del]

text \<open>
  \<^verbatim>\<open>sdfg.add_state(label)\<close>: a new, empty state; the model returns its position.
  \<^verbatim>\<open>sdfg.add_edge(u, v, InterstateEdge(...))\<close>: a new transition edge.
\<close>

definition add_state :: "graph_id \<Rightarrow> string \<Rightarrow> translator \<Rightarrow> state_id \<times> translator" where
  "add_state g l t =
     (let G = graphs t g in
      (length (states G),
       t\<lparr>graphs := (graphs t)(g := G\<lparr>states := states G @ [\<lparr>label = l, nodes = [], dataflow = []\<rparr>]\<rparr>)\<rparr>))"

definition add_edge ::
  "graph_id \<Rightarrow> state_id \<Rightarrow> state_id \<Rightarrow> string option \<Rightarrow> (string \<times> string) list \<Rightarrow> translator \<Rightarrow> translator" where
  "add_edge g u v c a t =
     (let G = graphs t g in
      t\<lparr>graphs := (graphs t)(g := G\<lparr>edges := edges G @
          [\<lparr>src = u, dst = v, condition = c, assignments = a\<rparr>]\<rparr>)\<rparr>)"

text \<open>
  Modelled from the spec: \<^verbatim>\<open>ast_utils.add_simple_state_to_sdfg\<close>, whose code is in
  \<^verbatim>\<open>ast_utils.py\<close>. The specification threads every construct through a current tail
  state kept per graph: the new state is added, the tail (when there is one) gets an
  unconditional edge to it, and it becomes the tail.
\<close>

definition add_simple_state_to_sdfg ::
  "graph_id \<Rightarrow> string \<Rightarrow> translator \<Rightarrow> state_id \<times> translator" where
  "add_simple_state_to_sdfg g l t =
     (let (s, t1) = add_state g l t;
          t2 = (case last_sdfg_states t g of
                  None \<Rightarrow> t1
                | Some tail \<Rightarrow> add_edge g tail s None [] t1)
      in (s, t2\<lparr>last_sdfg_states := (last_sdfg_states t2)(g \<mapsto> s)\<rparr>))"

subsection \<open>Containers\<close>

text \<open>
  \<^verbatim>\<open>sdfg.add_datadesc\<close>, \<^verbatim>\<open>add_scalar\<close>, \<^verbatim>\<open>add_array\<close> and \<^verbatim>\<open>add_view\<close> enter a
  descriptor in the graph's \<^verbatim>\<open>arrays\<close> under a name. A scalar has no shape, strides or
  offset; the storage, where the caller passes none, is the default one.
\<close>

definition add_datadesc :: "graph_id \<Rightarrow> string \<Rightarrow> data_desc \<Rightarrow> translator \<Rightarrow> translator" where
  "add_datadesc g n d t =
     (let G = graphs t g in t\<lparr>graphs := (graphs t)(g := G\<lparr>arrays := (arrays G)(n \<mapsto> d)\<rparr>)\<rparr>)"

definition add_scalar :: "graph_id \<Rightarrow> string \<Rightarrow> dtype \<Rightarrow> string \<Rightarrow> bool \<Rightarrow> translator \<Rightarrow> translator" where
  "add_scalar g n ty st tr t =
     add_datadesc g n \<lparr>kind = ScalarDesc, dtype = ty, shape = [], strides = [], offset = [],
       storage = st, transient = tr\<rparr> t"

definition add_array ::
  "graph_id \<Rightarrow> string \<Rightarrow> symexpr list \<Rightarrow> dtype \<Rightarrow> string \<Rightarrow> int list \<Rightarrow> symexpr list \<Rightarrow> bool \<Rightarrow>
   translator \<Rightarrow> translator" where
  "add_array g n sh ty st off str tr t =
     add_datadesc g n \<lparr>kind = ArrayDesc, dtype = ty, shape = sh, strides = str, offset = off,
       storage = st, transient = tr\<rparr> t"

definition add_view ::
  "graph_id \<Rightarrow> string \<Rightarrow> symexpr list \<Rightarrow> dtype \<Rightarrow> string \<Rightarrow> symexpr list \<Rightarrow> int list \<Rightarrow>
   translator \<Rightarrow> translator" where
  "add_view g n sh ty st str off t =
     add_datadesc g n \<lparr>kind = ViewDesc, dtype = ty, shape = sh, strides = str, offset = off,
       storage = st, transient = True\<rparr> t"

text \<open>
  The lines every declaring handler ends with:
  \<^verbatim>\<open>if self.contexts.get(sdfg.name) is None: self.contexts[sdfg.name] = Context(name=sdfg.name)\<close>,
  \<^verbatim>\<open>if name not in self.contexts[sdfg.name].containers: ... .append(name)\<close>.
\<close>

definition context_add_container :: "graph_id \<Rightarrow> string \<Rightarrow> translator \<Rightarrow> translator" where
  "context_add_container g n t =
     (let k = sdfg_name (graphs t g);
          c = (case contexts t k of None \<Rightarrow> \<lparr>containers = [], constants = Map.empty\<rparr> | Some c \<Rightarrow> c);
          c' = (if n \<in> set (containers c) then c else c\<lparr>containers := containers c @ [n]\<rparr>)
      in t\<lparr>contexts := (contexts t)(k \<mapsto> c')\<rparr>)"

subsection \<open>Declarations\<close>

text \<open>\<^verbatim>\<open>get_dace_type\<close>, for a type given by name.\<close>

definition get_dace_type :: "'e collaborators \<Rightarrow> translator \<Rightarrow> string \<Rightarrow> error + dtype" where
  "get_dace_type ext t ty =
     (case fortrantypes2dacetypes ext ty of
        Some d \<Rightarrow> Inr d
      | None \<Rightarrow> (case registered_types t ty of
                  Some d \<Rightarrow> Inr d
                | None \<Rightarrow> Inl (UnknownType ty)))"

text \<open>
  The sizes of a declaration or an allocation: each size expression is written by the
  tasklet writer and read back as a symbolic expression; every offset is \<open>-1\<close>; the
  strides are \<^verbatim>\<open>[dat._prod(sizes[:i]) for i in range(len(sizes))]\<close>.
\<close>

definition sizes_of :: "'e collaborators \<Rightarrow> graph_id \<Rightarrow> translator \<Rightarrow> 'e list \<Rightarrow> symexpr list" where
  "sizes_of ext g t es =
     map (\<lambda>i. pystr_to_symbolic ext (tasklet_write_code ext g (graphs t g) (name_mapping t) i)) es"

definition offsets_of :: "'e list \<Rightarrow> int list" where
  "offsets_of es = map (\<lambda>i. - 1) es"

definition strides_of :: "'e collaborators \<Rightarrow> symexpr list \<Rightarrow> symexpr list" where
  "strides_of ext sizes = map (\<lambda>i. prod ext (take i sizes)) [0..<length sizes]"

text \<open>\<^verbatim>\<open>vardecl2sdfg\<close>, of a node with name \<open>n\<close>, type \<open>ty\<close>, flag \<open>alloc\<close> and \<open>sizes\<close>.\<close>

definition vardecl2sdfg ::
  "'e collaborators \<Rightarrow> string \<Rightarrow> string \<Rightarrow> bool \<Rightarrow> 'e list option \<Rightarrow> graph_id \<Rightarrow> translator \<Rightarrow>
   error + translator" where
  "vardecl2sdfg ext n ty alloc node_sizes g t =
     (let tr = transient_mode t in
      case get_dace_type ext t ty of
        Inl e \<Rightarrow> Inl e
      | Inr datatype \<Rightarrow>
          if alloc then Inr (t\<lparr>unallocated_arrays := unallocated_arrays t @ [(n, datatype, g, tr)]\<rparr>)
          else
            if name_mapping t g n \<noteq> None then Inr t
            else if symbols (graphs t g) n \<noteq> None then Inr t
            else
              let mapped = find_new_name ext (graphs t g) n;
                  t1 = t\<lparr>name_mapping := (name_mapping t)(g := (name_mapping t g)(n \<mapsto> mapped))\<rparr>;
                  t2 = (case node_sizes of
                          None \<Rightarrow>
                            (case datatype of
                               StructureType s \<Rightarrow>
                                 add_datadesc g mapped \<lparr>kind = StructureDesc, dtype = datatype,
                                   shape = [], strides = [], offset = [], storage = ''Default'',
                                   transient = False\<rparr> t1
                             | BasicType s \<Rightarrow> add_scalar g mapped datatype ''Default'' tr t1)
                        | Some es \<Rightarrow>
                            add_array g mapped (sizes_of ext g t es) datatype ''Default''
                              (offsets_of es) (strides_of ext (sizes_of ext g t es)) tr t1);
                  t3 = t2\<lparr>all_array_names := all_array_names t2 @ [mapped]\<rparr>
              in Inr (context_add_container g n t3))"

subsection \<open>Deferred allocation\<close>

text \<open>
  The body of the inner loop of \<^verbatim>\<open>allocate2sdfg\<close> for an allocation \<open>i\<close> (a name and
  its shape list) and a matching worklist entry \<open>j\<close>: the entry is removed
  (\<^verbatim>\<open>list.remove\<close> deletes the first element equal to it), the sizes are read from the
  allocate statement, the name is bound to a new container name and the array is added
  with the data type and the transient flag of the entry.
\<close>

definition allocate_entry ::
  "'e collaborators \<Rightarrow> string \<times> 'e list \<Rightarrow> string \<times> dtype \<times> graph_id \<times> bool \<Rightarrow> graph_id \<Rightarrow>
   translator \<Rightarrow> translator" where
  "allocate_entry ext i j g t =
     (let datatype = fst (snd j);
          tr = snd (snd (snd j));
          t1 = t\<lparr>unallocated_arrays := remove1 j (unallocated_arrays t)\<rparr>;
          sizes = sizes_of ext g t1 (snd i);
          off = offsets_of (snd i);
          str = strides_of ext sizes;
          mapped = find_new_name ext (graphs t1 g) (fst i);
          t2 = t1\<lparr>name_mapping := (name_mapping t1)(g := (name_mapping t1 g)(fst i \<mapsto> mapped))\<rparr>;
          t3 = t2\<lparr>all_array_names := all_array_names t2 @ [mapped]\<rparr>;
          t4 = context_add_container g (fst i) t3
      in add_array g mapped sizes datatype ''Default'' off str tr t4)"

text \<open>
  \<^verbatim>\<open>for j in self.unallocated_arrays\<close>: Python's list iterator keeps a position \<open>idx\<close>
  into the live list, which the body shortens while the loop runs. An entry matches
  when \<^verbatim>\<open>j[0] == i.name.name and sdfg == j[2]\<close>.
\<close>

function allocate_scan ::
  "'e collaborators \<Rightarrow> string \<times> 'e list \<Rightarrow> graph_id \<Rightarrow> nat \<Rightarrow> translator \<Rightarrow> translator" where
  "allocate_scan ext i g idx t =
     (if idx < length (unallocated_arrays t) then
        (let j = unallocated_arrays t ! idx in
         if fst j = fst i \<and> g = fst (snd (snd j))
         then allocate_scan ext i g (idx + 1) (allocate_entry ext i j g t)
         else allocate_scan ext i g (idx + 1) t)
      else t)"
  by pat_completeness auto
termination
  by (relation "measure (\<lambda>(ext, i, g, idx, t). length (unallocated_arrays t) - idx)")
     (auto simp: allocate_entry_def add_array_def add_datadesc_def context_add_container_def
        Let_def length_remove1)

declare allocate_scan.simps [simp del]

text \<open>\<^verbatim>\<open>allocate2sdfg\<close>: \<^verbatim>\<open>for i in node.allocation_list\<close>.\<close>

fun allocate2sdfg ::
  "'e collaborators \<Rightarrow> (string \<times> 'e list) list \<Rightarrow> graph_id \<Rightarrow> translator \<Rightarrow> error + translator" where
  "allocate2sdfg ext [] g t = Inr t"
| "allocate2sdfg ext (i # allocation_list) g t =
     allocate2sdfg ext allocation_list g (allocate_scan ext i g 0 t)"

subsection \<open>Pointer assignment\<close>

text \<open>
  The loop of \<^verbatim>\<open>pointerassignment2sdfg\<close> over the worklist, again with the iterator's
  position. The flag \<open>found\<close> is read by the check; the loop body assigns
  \<^verbatim>\<open>fount = True\<close>, another variable, so \<open>found\<close> goes round the loop as it came.
\<close>

function pointer_scan ::
  "bool \<Rightarrow> string \<Rightarrow> nat \<Rightarrow> (string \<times> dtype \<times> graph_id \<times> bool) list \<Rightarrow>
   error + (string \<times> dtype \<times> graph_id \<times> bool) list" where
  "pointer_scan found name_pointer idx ua =
     (if idx < length ua then
        (let i = ua ! idx in
         if fst i = name_pointer then
           (if found then Inl AmbiguousAllocation
            else pointer_scan found name_pointer (idx + 1) (remove1 i ua))
         else pointer_scan found name_pointer (idx + 1) ua)
      else Inr ua)"
  by pat_completeness auto
termination
  by (relation "measure (\<lambda>(found, p, idx, ua). length ua - idx)")
     (auto simp: length_remove1)

declare pointer_scan.simps [simp del]

definition pointerassignment2sdfg ::
  "string \<Rightarrow> string \<Rightarrow> graph_id \<Rightarrow> translator \<Rightarrow> error + translator" where
  "pointerassignment2sdfg name_pointer name_target g t =
     (case name_mapping t g name_target of
        None \<Rightarrow> Inl (UnknownVariable name_target)
      | Some target \<Rightarrow>
          (let found = False in
           case pointer_scan found name_pointer 0 (unallocated_arrays t) of
             Inl e \<Rightarrow> Inl e
           | Inr ua \<Rightarrow>
               Inr (t\<lparr>unallocated_arrays := ua,
                      name_mapping := (name_mapping t)(g := (name_mapping t g)(name_pointer \<mapsto> target))\<rparr>)))"

subsection \<open>Unsupported constructs\<close>

text \<open>
  \<^verbatim>\<open>write2sdfg\<close> raises \<^verbatim>\<open>NotImplementedError\<close>. \<^verbatim>\<open>symbolarray2sdfg\<close> builds a
  \<^verbatim>\<open>NotImplementedError\<close> and \<^emph>\<open>returns\<close> it: the handler ends normally, its result is
  the exception object, the translator is as it was.
\<close>

definition write2sdfg :: "graph_id \<Rightarrow> translator \<Rightarrow> error + (error option \<times> translator)" where
  "write2sdfg g t = Inl UnsupportedConstruct"

definition symbolarray2sdfg :: "graph_id \<Rightarrow> translator \<Rightarrow> error + (error option \<times> translator)" where
  "symbolarray2sdfg g t = Inr (Some UnsupportedConstruct, t)"

subsection \<open>Statements and control flow\<close>

text \<open>
  \<^verbatim>\<open>binop2sdfg\<close> for an assignment with no embedded call, as far as the state machine
  goes: one new state after the tail. The tasklet and the memlets it builds live
  inside that state and are not part of this model.
\<close>

definition binop2sdfg :: "nat \<Rightarrow> nat \<Rightarrow> graph_id \<Rightarrow> translator \<Rightarrow> translator" where
  "binop2sdfg line col g t =
     snd (add_simple_state_to_sdfg g (''_state_l'' @ str_nat line @ ''_c'' @ str_nat col) t)"

text \<open>
  \<^verbatim>\<open>break2sdfg\<close>. Reading \<^verbatim>\<open>self.last_sdfg_states[sdfg]\<close> of a graph with no tail is a
  \<^verbatim>\<open>KeyError\<close>; with no loop entered, \<^verbatim>\<open>self.last_loop_continues.get(sdfg)\<close> is \<^verbatim>\<open>None\<close>,
  which is no state to draw an edge to.
\<close>

definition break2sdfg :: "graph_id \<Rightarrow> translator \<Rightarrow> error + translator" where
  "break2sdfg g t =
     (case last_sdfg_states t g of
        None \<Rightarrow> Inl PyKeyError
      | Some tail \<Rightarrow>
          (let t1 = t\<lparr>last_loop_breaks := (last_loop_breaks t)(g \<mapsto> tail)\<rparr> in
           case last_loop_continues t1 g of
             None \<Rightarrow> Inl PyTypeError
           | Some target \<Rightarrow> Inr (add_edge g tail target None [] t1)))"

text \<open>
  \<^verbatim>\<open>ifstmt2sdfg\<close> up to the lowering of the body: the states \<open>Begin\<close>, \<open>Guard\<close> and
  \<open>BodyIfStart\<close>, and the condition as the processed writer writes it. The result is
  the guard, the first state of the body, the condition and the translator.
\<close>

definition ifstmt_begin ::
  "'e collaborators \<Rightarrow> 'e \<Rightarrow> nat \<Rightarrow> nat \<Rightarrow> graph_id \<Rightarrow> translator \<Rightarrow>
   state_id \<times> state_id \<times> string \<times> translator" where
  "ifstmt_begin ext cond line col g t =
     (let name = ''If_l_'' @ str_nat line @ ''_c_'' @ str_nat col;
          (begin_state, t1) = add_simple_state_to_sdfg g (''Begin'' @ name) t;
          (guard_substate, t2) = add_state g (''Guard'' @ name) t1;
          t3 = add_edge g begin_state guard_substate None [] t2;
          condition = processed_write_code ext g (graphs t3 g) (name_mapping t3) cond;
          (body_ifstart_state, t4) = add_state g (''BodyIfStart'' @ name) t3;
          t5 = t4\<lparr>last_sdfg_states := (last_sdfg_states t4)(g \<mapsto> body_ifstart_state)\<rparr>
      in (guard_substate, body_ifstart_state, condition, t5))"

text \<open>
  After the body: the merge state, the edge of the taken branch, and the edge from the
  end of the body to the merge state unless the tail is the state recorded by the last
  break, the target of the last loop or the last return.
\<close>

definition ifstmt_merge ::
  "nat \<Rightarrow> nat \<Rightarrow> state_id \<Rightarrow> state_id \<Rightarrow> string \<Rightarrow> graph_id \<Rightarrow> translator \<Rightarrow>
   error + (state_id \<times> translator)" where
  "ifstmt_merge line col guard_substate body_ifstart_state condition_text g t =
     (let name = ''If_l_'' @ str_nat line @ ''_c_'' @ str_nat col;
          (final_substate, t1) = add_state g (''MergeState'' @ name) t;
          t2 = add_edge g guard_substate body_ifstart_state (Some condition_text) [] t1
      in case last_sdfg_states t2 g of
           None \<Rightarrow> Inl PyKeyError
         | Some tail \<Rightarrow>
             if Some tail \<notin> set [last_loop_breaks t2 g, last_loop_continues t2 g, last_returns t2 g]
             then (let (body_ifend_state, t3) = add_simple_state_to_sdfg g (''BodyIfEnd'' @ name) t2
                   in Inr (final_substate, add_edge g body_ifend_state final_substate None [] t3))
             else Inr (final_substate, t2))"

text \<open>The else branch, before and after its body; and the wiring without an else branch.\<close>

definition ifstmt_else_begin :: "nat \<Rightarrow> nat \<Rightarrow> graph_id \<Rightarrow> translator \<Rightarrow> state_id \<times> translator" where
  "ifstmt_else_begin line col g t =
     (let name_else = ''Else_l_'' @ str_nat line @ ''_c_'' @ str_nat col;
          (body_elsestart_state, t1) = add_state g (''BodyElseStart'' @ name_else) t
      in (body_elsestart_state,
          t1\<lparr>last_sdfg_states := (last_sdfg_states t1)(g \<mapsto> body_elsestart_state)\<rparr>))"

definition ifstmt_else_end ::
  "nat \<Rightarrow> nat \<Rightarrow> state_id \<Rightarrow> state_id \<Rightarrow> state_id \<Rightarrow> string \<Rightarrow> graph_id \<Rightarrow> translator \<Rightarrow>
   translator" where
  "ifstmt_else_end line col guard_substate body_elsestart_state final_substate condition_text g t =
     (let name_else = ''Else_l_'' @ str_nat line @ ''_c_'' @ str_nat col;
          (body_elseend_state, t1) = add_simple_state_to_sdfg g (''BodyElseEnd'' @ name_else) t;
          t2 = add_edge g guard_substate body_elsestart_state
                 (Some (''not ('' @ condition_text @ '')'')) [] t1;
          t3 = add_edge g body_elseend_state final_substate None [] t2
      in t3\<lparr>last_sdfg_states := (last_sdfg_states t3)(g \<mapsto> final_substate)\<rparr>)"

definition ifstmt_no_else ::
  "state_id \<Rightarrow> state_id \<Rightarrow> string \<Rightarrow> graph_id \<Rightarrow> translator \<Rightarrow> translator" where
  "ifstmt_no_else guard_substate final_substate condition_text g t =
     (let t1 = add_edge g guard_substate final_substate (Some (''not ('' @ condition_text @ '')'')) [] t
      in t1\<lparr>last_sdfg_states := (last_sdfg_states t1)(g \<mapsto> final_substate)\<rparr>)"

text \<open>
  The part of \<^verbatim>\<open>forstmt2sdfg\<close> that finds the iteration variable: \<open>None\<close> when
  \<^verbatim>\<open>node.init\<close> is no \<^verbatim>\<open>BinOp_Node\<close> (the variable \<^verbatim>\<open>iter_name\<close> stays unbound), else the
  name and the entry of the initialising assignment.
\<close>

definition for_init ::
  "'e collaborators \<Rightarrow> (string \<times> 'e) option \<Rightarrow> graph_id \<Rightarrow> translator \<Rightarrow>
   error + (string option \<times> (string \<times> string) list)" where
  "for_init ext init g t =
     (case init of
        None \<Rightarrow> Inr (None, [])
      | Some (lval, rval) \<Rightarrow>
          (case (if symbols (graphs t g) lval \<noteq> None then Inr lval
                 else (case name_mapping t g lval of
                         Some m \<Rightarrow> Inr m
                       | None \<Rightarrow> Inl (UnknownVariable lval))) of
             Inl e \<Rightarrow> Inl e
           | Inr iter_name \<Rightarrow>
               Inr (Some iter_name,
                    [(iter_name, processed_write_code ext g (graphs t g) (name_mapping t) rval)])))"

text \<open>
  \<^verbatim>\<open>forstmt2sdfg\<close> up to the lowering of the body. The result is the guard, the merge
  state, the first state of the body, the state \<open>EndLoop\<close>, the condition, the
  increment assignment and the translator, in which the tail is the first state of the
  body and \<^verbatim>\<open>last_loop_continues\<close> of the graph is the merge state of this loop.
\<close>

definition forstmt_begin ::
  "'e collaborators \<Rightarrow> (string \<times> 'e) option \<Rightarrow> 'e \<Rightarrow> 'e option \<Rightarrow> nat \<Rightarrow> nat \<Rightarrow> graph_id \<Rightarrow>
   translator \<Rightarrow>
   error + (state_id \<times> state_id \<times> state_id \<times> state_id \<times> string \<times> (string \<times> string) list \<times> translator)"
  where
  "forstmt_begin ext init cond iter line col g t =
     (let name = ''FOR_l_'' @ str_nat line @ ''_c_'' @ str_nat col;
          (begin_state, t1) = add_simple_state_to_sdfg g (''Begin'' @ name) t;
          (guard_substate, t2) = add_state g (''Guard'' @ name) t1;
          (final_substate, t3) = add_state g (''Merge'' @ name) t2;
          t4 = t3\<lparr>last_sdfg_states := (last_sdfg_states t3)(g \<mapsto> final_substate)\<rparr>
      in case for_init ext init g t4 of
           Inl e \<Rightarrow> Inl e
         | Inr (iter_name, entry) \<Rightarrow>
             (let t5 = add_edge g begin_state guard_substate None entry t4;
                  condition = processed_write_code ext g (graphs t5 g) (name_mapping t5) cond;
                  increment = (case iter of
                                 None \<Rightarrow> ''i+0+1''
                               | Some rval \<Rightarrow>
                                   processed_write_code ext g (graphs t5 g) (name_mapping t5) rval)
              in case iter_name of
                   None \<Rightarrow> Inl PyNameError
                 | Some iter_name \<Rightarrow>
                     (let entry = [(iter_name, increment)];
                          (begin_loop_state, t6) = add_state g (''BeginLoop'' @ name) t5;
                          (end_loop_state, t7) = add_state g (''EndLoop'' @ name) t6;
                          t8 = t7\<lparr>last_sdfg_states := (last_sdfg_states t7)(g \<mapsto> begin_loop_state)\<rparr>;
                          t9 = t8\<lparr>last_loop_continues :=
                                    (last_loop_continues t8)(g \<mapsto> final_substate)\<rparr>
                      in Inr (guard_substate, final_substate, begin_loop_state, end_loop_state,
                              condition, entry, t9))))"

text \<open>\<^verbatim>\<open>forstmt2sdfg\<close> after the body: the four edges of the loop, and the new tail.\<close>

definition forstmt_end ::
  "state_id \<Rightarrow> state_id \<Rightarrow> state_id \<Rightarrow> state_id \<Rightarrow> string \<Rightarrow> (string \<times> string) list \<Rightarrow>
   graph_id \<Rightarrow> translator \<Rightarrow> error + translator" where
  "forstmt_end guard_substate final_substate begin_loop_state end_loop_state condition_text entry g t =
     (case last_sdfg_states t g of
        None \<Rightarrow> Inl PyKeyError
      | Some tail \<Rightarrow>
          (let t1 = add_edge g tail end_loop_state None [] t;
               t2 = add_edge g guard_substate begin_loop_state (Some condition_text) [] t1;
               t3 = add_edge g end_loop_state guard_substate None entry t2;
               t4 = add_edge g guard_substate final_substate
                      (Some (''not ('' @ condition_text @ '')'')) [] t3
           in Inr (t4\<lparr>last_sdfg_states := (last_sdfg_states t4)(g \<mapsto> final_substate)\<rparr>)))"

text \<open>
  \<^verbatim>\<open>translate\<close> dispatches on the class of the node and drops what the handler
  returns; a list is translated element by element. \<^verbatim>\<open>ifstmt2sdfg\<close> and
  \<^verbatim>\<open>forstmt2sdfg\<close> call it on their bodies; handed a node of another class they would
  fail on its missing attributes.
\<close>

fun translate :: "'e collaborators \<Rightarrow> 'e stmt \<Rightarrow> graph_id \<Rightarrow> translator \<Rightarrow> error + translator"
  and translate_list ::
    "'e collaborators \<Rightarrow> 'e stmt list \<Rightarrow> graph_id \<Rightarrow> translator \<Rightarrow> error + translator"
  and ifstmt2sdfg ::
    "'e collaborators \<Rightarrow> 'e stmt \<Rightarrow> graph_id \<Rightarrow> translator \<Rightarrow> error + translator"
  and forstmt2sdfg ::
    "'e collaborators \<Rightarrow> 'e stmt \<Rightarrow> graph_id \<Rightarrow> translator \<Rightarrow> error + translator"
where
  "translate ext (BinOp_Node line col) g t = Inr (binop2sdfg line col g t)"
| "translate ext (If_Stmt_Node cond body body_else line col) g t =
     ifstmt2sdfg ext (If_Stmt_Node cond body body_else line col) g t"
| "translate ext (For_Stmt_Node init cond iter body line col) g t =
     forstmt2sdfg ext (For_Stmt_Node init cond iter body line col) g t"
| "translate ext Break_Node g t = break2sdfg g t"
| "translate ext Write_Stmt_Node g t = map_sum id snd (write2sdfg g t)"
| "translate ext Symbol_Array_Decl_Node g t = map_sum id snd (symbolarray2sdfg g t)"
| "translate ext (Allocate_Stmt_Node allocation_list) g t = allocate2sdfg ext allocation_list g t"
| "translate ext (Pointer_Assignment_Stmt_Node name_pointer name_target) g t =
     pointerassignment2sdfg name_pointer name_target g t"
| "translate ext (Var_Decl_Node n ty alloc sizes) g t = vardecl2sdfg ext n ty alloc sizes g t"
| "translate ext (Decl_Stmt_Node vardecl) g t = translate_list ext vardecl g t"
| "translate_list ext [] g t = Inr t"
| "translate_list ext (i # node) g t =
     (case translate ext i g t of
        Inl e \<Rightarrow> Inl e
      | Inr t' \<Rightarrow> translate_list ext node g t')"
| "ifstmt2sdfg ext (If_Stmt_Node cond body body_else line col) g t =
     (case ifstmt_begin ext cond line col g t of
        (guard_substate, body_ifstart_state, condition_text, t1) \<Rightarrow>
          (case translate_list ext body g t1 of
             Inl e \<Rightarrow> Inl e
           | Inr t2 \<Rightarrow>
               (case ifstmt_merge line col guard_substate body_ifstart_state condition_text g t2 of
                  Inl e \<Rightarrow> Inl e
                | Inr (final_substate, t3) \<Rightarrow>
                    if length body_else > 0 then
                      (case ifstmt_else_begin line col g t3 of
                         (body_elsestart_state, t4) \<Rightarrow>
                           (case translate_list ext body_else g t4 of
                              Inl e \<Rightarrow> Inl e
                            | Inr t5 \<Rightarrow>
                                Inr (ifstmt_else_end line col guard_substate body_elsestart_state
                                       final_substate condition_text g t5)))
                    else Inr (ifstmt_no_else guard_substate final_substate condition_text g t3))))"
| "ifstmt2sdfg ext _ g t = Inl PyAttributeError"
| "forstmt2sdfg ext (For_Stmt_Node init cond iter body line col) g t =
     (case forstmt_begin ext init cond iter line col g t of
        Inl e \<Rightarrow> Inl e
      | Inr (guard_substate, final_substate, begin_loop_state, end_loop_state, condition_text, entry, t1) \<Rightarrow>
          (case translate_list ext body g t1 of
             Inl e \<Rightarrow> Inl e
           | Inr t2 \<Rightarrow>
               forstmt_end guard_substate final_substate begin_loop_state end_loop_state
                 condition_text entry g t2))"
| "forstmt2sdfg ext _ g t = Inl PyAttributeError"

subsection \<open>A fresh translator and sample collaborators\<close>

text \<open>
  \<^verbatim>\<open>SDFG(name)\<close> is an empty graph. \<open>AST_translator_init\<close> is the translator as
  \<^verbatim>\<open>__init__\<close> leaves it, over a store in which every handle holds an empty graph named
  \<open>n\<close>, with the top-level graph at handle \<open>0\<close> (as \<^verbatim>\<open>create_sdfg_from_string\<close> sets
  \<^verbatim>\<open>globalsdfg\<close>).
\<close>

definition SDFG :: "string \<Rightarrow> sdfg" where
  "SDFG n = \<lparr>sdfg_name = n, states = [], edges = [], arrays = Map.empty, symbols = Map.empty\<rparr>"

definition AST_translator_init :: "string \<Rightarrow> translator" where
  "AST_translator_init n =
     \<lparr>graphs = (\<lambda>g. SDFG n), globalsdfg = 0, registered_types = Map.empty,
      transient_mode = True, name_mapping = (\<lambda>g. Map.empty), contexts = Map.empty,
      views = 0, libstates = [], unallocated_arrays = [], all_array_names = [],
      last_sdfg_states = Map.empty, last_loop_continues = Map.empty,
      last_loop_breaks = Map.empty, last_returns = Map.empty\<rparr>"

text \<open>
  Collaborators for running the model on concrete programs: expressions are their own
  text, a size is an integer when its text is \<open>1\<close> and symbolic otherwise, a product
  is kept as the text of its factors, a name in use gets the suffix \<open>_0\<close>, the type
  table knows \<open>INTEGER\<close> and \<open>DOUBLE\<close>, and every generated range is \<open>0:n\<close>.
\<close>

fun symexpr_text :: "symexpr \<Rightarrow> string" where
  "symexpr_text (IntE i) = (if i = 1 then ''1'' else ''int'')"
| "symexpr_text (SymE x) = x"

definition example_collaborators :: "string collaborators" where
  "example_collaborators =
     \<lparr>processed_write_code = (\<lambda>g G nm e. e),
      tasklet_write_code = (\<lambda>g G nm e. e),
      pystr_to_symbolic = (\<lambda>x. if x = ''1'' then IntE 1 else SymE x),
      prod = (\<lambda>xs. if xs = [] then IntE 1 else SymE (concat (map symexpr_text xs))),
      find_new_name = (\<lambda>G n. if arrays G n = None \<and> symbols G n = None then n else n @ ''_0''),
      fortrantypes2dacetypes =
        [''INTEGER'' \<mapsto> BasicType ''int32'', ''DOUBLE'' \<mapsto> BasicType ''float64''],
      generate_memlet = (\<lambda>a g t. ''0:n'')\<rparr>"

text \<open>
  A translator in which \<open>q\<close> is bound in every graph and the worklist holds two equal
  entries for \<open>p\<close>, of the top-level graph.
\<close>

definition two_unallocated :: translator where
  "two_unallocated =
     (AST_translator_init ''prog'')
       \<lparr>name_mapping := (\<lambda>g. [''q'' \<mapsto> ''q'']),
        unallocated_arrays := [(''p'', BasicType ''float64'', 0, True),
                               (''p'', BasicType ''float64'', 0, True)]\<rparr>"

subsection \<open>Notions used in the statements\<close>

text \<open>
  \<open>cfg_extends g t t'\<close>: from \<open>t\<close> to \<open>t'\<close> the states and the transition edges of graph \<open>g\<close>
  were only added to, and \<^verbatim>\<open>last_loop_continues\<close> of \<open>g\<close> is what it was or a state added
  in between.
\<close>

definition cfg_extends :: "graph_id \<Rightarrow> translator \<Rightarrow> translator \<Rightarrow> bool" where
  "cfg_extends g t t' \<longleftrightarrow>
     prefix (states (graphs t g)) (states (graphs t' g)) \<and>
     prefix (edges (graphs t g)) (edges (graphs t' g)) \<and>
     (last_loop_continues t' g = last_loop_continues t g \<or>
      (\<exists>m. last_loop_continues t' g = Some m \<and> length (states (graphs t g)) \<le> m \<and>
           m < length (states (graphs t' g))))"


text \<open>
  \<open>cfg_same t t'\<close>: the states and transition edges of every graph, and the four registers
  of the state machine, are the same in \<open>t\<close> and \<open>t'\<close>.
\<close>

definition cfg_same :: "translator \<Rightarrow> translator \<Rightarrow> bool" where
  "cfg_same t t' \<longleftrightarrow> (\<forall>g. states (graphs t' g) = states (graphs t g) \<and> edges (graphs t' g) = edges (graphs t g)) \<and>
     last_loop_continues t' = last_loop_continues t \<and> last_loop_breaks t' = last_loop_breaks t \<and>
     last_returns t' = last_returns t \<and> last_sdfg_states t' = last_sdfg_states t"

text \<open>
  The test of \<^verbatim>\<open>allocate2sdfg\<close> on a worklist entry \<open>j\<close>, for the allocation \<open>i\<close> in
  graph \<open>g\<close>: \<^verbatim>\<open>j[0] == i.name.name and sdfg == j[2]\<close>.
\<close>

definition allocation_matches ::
  "string \<times> 'e list \<Rightarrow> graph_id \<Rightarrow> string \<times> dtype \<times> graph_id \<times> bool \<Rightarrow> bool" where
  "allocation_matches i g j \<longleftrightarrow> fst j = fst i \<and> g = fst (snd (snd j))"







subsection \<open>Dataflow inside a state\<close>

text \<open>
  \<^verbatim>\<open>substate.add_read\<close>, \<^verbatim>\<open>add_write\<close> and \<^verbatim>\<open>add_access\<close> put a new access node for a
  container into a state and return it; \<^verbatim>\<open>substate.add_edge\<close> and \<^verbatim>\<open>add_memlet_path\<close>
  between two nodes put a data-movement edge; \<^verbatim>\<open>substate.add_nested_sdfg\<close> puts the
  invocation node of a nested graph with its input and output connectors. The state
  \<open>st\<close> is a state of graph \<open>g\<close>; a node is its position in the state's list of nodes.
\<close>

definition update_state ::
  "graph_id \<Rightarrow> state_id \<Rightarrow> (sdfg_state \<Rightarrow> sdfg_state) \<Rightarrow> translator \<Rightarrow> translator" where
  "update_state g st f t =
     (let G = graphs t g
      in t\<lparr>graphs := (graphs t)(g := G\<lparr>states := (states G)[st := f (states G ! st)]\<rparr>)\<rparr>)"

definition add_node :: "graph_id \<Rightarrow> state_id \<Rightarrow> node \<Rightarrow> translator \<Rightarrow> node_id \<times> translator" where
  "add_node g st n t =
     (length (nodes (states (graphs t g) ! st)),
      update_state g st (\<lambda>S. S\<lparr>nodes := nodes S @ [n]\<rparr>) t)"

definition add_access :: "graph_id \<Rightarrow> state_id \<Rightarrow> string \<Rightarrow> translator \<Rightarrow> node_id \<times> translator" where
  "add_access g st n t = add_node g st (AccessNode n) t"

definition add_nested_sdfg ::
  "graph_id \<Rightarrow> state_id \<Rightarrow> string \<Rightarrow> string list \<Rightarrow> string list \<Rightarrow> translator \<Rightarrow>
   node_id \<times> translator" where
  "add_nested_sdfg g st n ins outs t = add_node g st (NestedSDFG n ins outs) t"

definition add_dataflow_edge ::
  "graph_id \<Rightarrow> state_id \<Rightarrow> node_id \<Rightarrow> string option \<Rightarrow> node_id \<Rightarrow> string option \<Rightarrow> memlet \<Rightarrow>
   translator \<Rightarrow> translator" where
  "add_dataflow_edge g st u uc v vc m t =
     update_state g st
       (\<lambda>S. S\<lparr>dataflow := dataflow S @
          [\<lparr>df_src = u, src_conn = uc, df_dst = v, dst_conn = vc, df_memlet = m\<rparr>]\<rparr>) t"

text \<open>
  Modelled from the spec: \<^verbatim>\<open>ast_utils.add_memlet_read\<close> and \<^verbatim>\<open>ast_utils.add_memlet_write\<close>,
  whose code is in \<^verbatim>\<open>ast_utils.py\<close>. A data-movement edge connects a container to a port
  of a compute unit, or a port to a container, and carries the accessed range: reading
  adds an access node for the container and an edge from it to the input connector,
  writing adds an access node and an edge from the output connector to it.
\<close>

definition add_memlet_read ::
  "graph_id \<Rightarrow> state_id \<Rightarrow> string \<Rightarrow> node_id \<Rightarrow> string \<Rightarrow> string \<Rightarrow> translator \<Rightarrow> translator" where
  "add_memlet_read g st var_name tasklet dest_conn memlet_range t =
     (let (s, t1) = add_access g st var_name t
      in add_dataflow_edge g st s None tasklet (Some dest_conn)
           (Memlet_text var_name memlet_range) t1)"

definition add_memlet_write ::
  "graph_id \<Rightarrow> state_id \<Rightarrow> string \<Rightarrow> node_id \<Rightarrow> string \<Rightarrow> string \<Rightarrow> translator \<Rightarrow> translator" where
  "add_memlet_write g st var_name tasklet source_conn memlet_range t =
     (let (d, t1) = add_access g st var_name t
      in add_dataflow_edge g st tasklet (Some source_conn) d None
           (Memlet_text var_name memlet_range) t1)"

subsection \<open>Procedure calls\<close>

text \<open>
  \<^verbatim>\<open>subroutine2sdfg\<close> is modelled in the blocks the properties below are about; each
  block is a run of consecutive lines of the source. The new graph \<^verbatim>\<open>SDFG(node.name.name)\<close>
  is a new object: the model stores it under a handle \<open>new_sdfg\<close> that the caller gives
  and that is no handle of a graph in use.

  From the entry to the check of the argument count. A subroutine with no execution
  part returns at once (the result \<open>None\<close>). \<open>last_call_expression\<close> is
  \<^verbatim>\<open>self.last_call_expression.get(sdfg)\<close>, the argument list \<^verbatim>\<open>call2sdfg\<close> left for this
  graph. The result holds the state of the call, the actual arguments, the formal
  parameters and the translator.
\<close>

definition subroutine2sdfg_enter ::
  "'e subroutine \<Rightarrow> 'e arg list option \<Rightarrow> graph_id \<Rightarrow> graph_id \<Rightarrow> translator \<Rightarrow>
   error + (state_id \<times> 'e arg list \<times> string list \<times> translator) option" where
  "subroutine2sdfg_enter node last_call_expression g new_sdfg t =
     (case execution_part node of
        None \<Rightarrow> Inr None
      | Some body \<Rightarrow>
          (let parameters = sub_args node;
               t1 = t\<lparr>graphs := (graphs t)(new_sdfg := SDFG (sub_name node))\<rparr>;
               (substate, t2) = add_simple_state_to_sdfg g (''state'' @ sub_name node) t1;
               variables_in_call = (case last_call_expression of None \<Rightarrow> [] | Some vs \<Rightarrow> vs)
           in if \<not> (length variables_in_call = length parameters \<or>
                     (length variables_in_call = length parameters + 1 \<and>
                      result_type node \<noteq> Void))
              then Inl ArityMismatch
              else Inr (Some (substate, variables_in_call, parameters, t2))))"

text \<open>
  The accumulators of \<^verbatim>\<open>subroutine2sdfg\<close>: the connectors of the nested graph and the
  list \<^verbatim>\<open>views\<close>, whose entries are \<^verbatim>\<open>[array_name, wv, rv, index]\<close>.
\<close>

record call_frame =
  ins_in_new_sdfg :: "string list"
  outs_in_new_sdfg :: "string list"
  view_list :: "(string \<times> node_id option \<times> node_id option \<times> nat) list"

text \<open>\<^verbatim>\<open>list.pop(k)\<close>, for \<open>k\<close> in range.\<close>

definition pop :: "nat \<Rightarrow> 'a list \<Rightarrow> 'a list" where
  "pop k xs = take k xs @ drop (Suc k) xs"

text \<open>
  The loop over the indices of a subscripted argument. \<open>indices\<close> counts the indices
  seen and \<open>changed_indices\<close> the concrete ones among them; \<open>shp\<close> and \<open>index_list\<close> grow,
  \<open>strs\<close> and \<open>offs\<close> (copies of the strides and offsets of the array) lose the entry of
  each concrete index. Reading \<^verbatim>\<open>array.shape[indices]\<close> or popping beyond the end is an
  \<^verbatim>\<open>IndexError\<close>; a \<^verbatim>\<open>ParDecl_Node\<close> of another type than \<open>ALL\<close> is not implemented. The
  product \<^verbatim>\<open>mysize\<close>, which nothing reads, is left out.
\<close>

fun subscript_scan ::
  "'e collaborators \<Rightarrow> graph_id \<Rightarrow> translator \<Rightarrow> data_desc \<Rightarrow> 'e index list \<Rightarrow> nat \<Rightarrow> nat \<Rightarrow>
   symexpr list \<Rightarrow> symexpr option list \<Rightarrow> symexpr list \<Rightarrow> int list \<Rightarrow>
   error + (symexpr list \<times> symexpr option list \<times> symexpr list \<times> int list)" where
  "subscript_scan ext g t array [] indices changed_indices shp index_list strs offs =
     Inr (shp, index_list, strs, offs)"
| "subscript_scan ext g t array (ParDecl_Node ty # rest) indices changed_indices shp index_list
     strs offs =
     (if ty = ''ALL'' then
        (if indices < length (shape array)
         then subscript_scan ext g t array rest (indices + 1) changed_indices
                (shp @ [shape array ! indices]) (index_list @ [None]) strs offs
         else Inl PyIndexError)
      else Inl UnsupportedConstruct)"
| "subscript_scan ext g t array (Index_Node i # rest) indices changed_indices shp index_list
     strs offs =
     (let text = processed_write_code ext g (graphs t g) (name_mapping t) i;
          k = indices - changed_indices
      in if k < length strs \<and> k < length offs
         then subscript_scan ext g t array rest (indices + 1) (changed_indices + 1) shp
                (index_list @ [Some (pystr_to_symbolic ext text)]) (pop k strs) (pop k offs)
         else Inl PyIndexError)"

text \<open>
  The creation of a view for a subscripted argument whose reduced shape is no scalar:
  the view container, the two memlets, the access nodes and edges for the directions
  in which the formal parameter is read or written, the counter, and the entry of
  \<^verbatim>\<open>views\<close>.
\<close>

definition create_view ::
  "graph_id \<Rightarrow> state_id \<Rightarrow> string \<Rightarrow> data_desc \<Rightarrow> string \<Rightarrow> nat \<Rightarrow> string list \<Rightarrow> string list \<Rightarrow>
   symexpr list \<Rightarrow> symexpr option list \<Rightarrow> symexpr list \<Rightarrow> int list \<Rightarrow>
   translator \<times> call_frame \<Rightarrow> translator \<times> call_frame" where
  "create_view g substate array_name array local_name arg_index read_names write_names
     shp index_list strs offs tf =
     (let (t, f) = tf;
          offsets_zero = map (\<lambda>index. 0) offs;
          viewname = array_name @ ''_view_'' @ str_nat (views t);
          t1 = add_view g viewname shp (dtype array) (storage array) strs offsets_zero t;
          all_indices = replicate (length (shape array) - length index_list) None @ index_list;
          subset = map (\<lambda>(i, s). case i of Some i \<Rightarrow> Point i | None \<Rightarrow> OneTo s)
                     (zip all_indices (shape array));
          smallsubset = map ZeroBelow shp;
          memlet = Memlet_view array_name subset smallsubset;
          memlet2 = Memlet_view viewname smallsubset subset;
          (wv, t2) = (if local_name \<in> set read_names
                      then (let (r, ta) = add_access g substate array_name t1;
                                (wv, tb) = add_access g substate viewname ta
                            in (Some wv,
                                add_dataflow_edge g substate r None wv (Some ''views'') memlet tb))
                      else (None, t1));
          (rv, t3) = (if local_name \<in> set write_names
                      then (let (rv, ta) = add_access g substate viewname t2;
                                (w, tb) = add_access g substate array_name ta
                            in (Some rv,
                                add_dataflow_edge g substate rv (Some ''views2'') w None memlet2 tb))
                      else (None, t2));
          t4 = t3\<lparr>views := views t3 + 1\<rparr>
      in (t4, f\<lparr>view_list := view_list f @ [(array_name, wv, rv, arg_index)]\<rparr>))"

text \<open>
  The body of the loop over the container arguments for an argument whose base array
  \<open>array_name\<close>, with descriptor \<open>array\<close>, is found in the calling graph: the formal
  parameter \<open>local_name\<close> is bound in the new graph and entered as input or output
  connector; the shape, strides and offsets of the argument are computed; a scalar is
  declared in the new graph when the shape is empty or \<open>[1]\<close>, else an array, after a
  view was created in the calling graph unless the argument is a plain name.
\<close>

definition bind_local_argument ::
  "'e collaborators \<Rightarrow> graph_id \<Rightarrow> graph_id \<Rightarrow> state_id \<Rightarrow> string \<Rightarrow> data_desc \<Rightarrow> 'e arg \<Rightarrow>
   string \<Rightarrow> nat \<Rightarrow> string list \<Rightarrow> string list \<Rightarrow> translator \<times> call_frame \<Rightarrow>
   error + translator \<times> call_frame" where
  "bind_local_argument ext g new_sdfg substate array_name array variable_in_call local_name
     arg_index read_names write_names tf =
     (let (t, f) = tf;
          mapped = find_new_name ext (graphs t new_sdfg) local_name;
          t1 = t\<lparr>name_mapping :=
                   (name_mapping t)(new_sdfg := (name_mapping t new_sdfg)(local_name \<mapsto> mapped))\<rparr>;
          t2 = t1\<lparr>all_array_names := all_array_names t1 @ [mapped]\<rparr>;
          f1 = (if local_name \<in> set read_names
                then f\<lparr>ins_in_new_sdfg := ins_in_new_sdfg f @ [mapped]\<rparr> else f);
          f2 = (if local_name \<in> set write_names
                then f1\<lparr>outs_in_new_sdfg := outs_in_new_sdfg f1 @ [mapped]\<rparr> else f1)
      in case (case variable_in_call of
                 Array_Subscript_Node n indices \<Rightarrow>
                   subscript_scan ext g t2 array indices 0 0 [] [] (strides array) (offset array)
               | _ \<Rightarrow> Inr ([], [], strides array, offset array)) of
           Inl e \<Rightarrow> Inl e
         | Inr (shp0, index_list, strs, offs) \<Rightarrow>
             (let shp = (case variable_in_call of Name_Node n \<Rightarrow> shape array | _ \<Rightarrow> shp0)
              in if shp = [] \<or> shp = [IntE 1]
                 then Inr (add_scalar new_sdfg mapped (dtype array) (storage array) False t2, f2)
                 else
                   (let (t3, f3) =
                          (case variable_in_call of
                             Name_Node n \<Rightarrow> (t2, f2)
                           | _ \<Rightarrow> create_view g substate array_name array local_name arg_index
                                    read_names write_names shp index_list strs offs (t2, f2))
                    in Inr (add_array new_sdfg mapped shp (dtype array) (storage array) offs strs
                              False t3, f3))))"

text \<open>
  The two loops over the library states of an inlined call: the first declares each
  library state in the new graph and enters it as a connector if the callee reads or
  writes it by name; the second, after the invocation node \<open>internal_sdfg\<close> exists, adds
  the memlets. \<^verbatim>\<open>self.name_mapping[sdfg][i]\<close> of an unbound name is a \<^verbatim>\<open>KeyError\<close>.
\<close>

fun libstates_declare ::
  "'e collaborators \<Rightarrow> string list \<Rightarrow> graph_id \<Rightarrow> string list \<Rightarrow> string list \<Rightarrow>
   translator \<times> call_frame \<Rightarrow> translator \<times> call_frame" where
  "libstates_declare ext [] new_sdfg read_names write_names tf = tf"
| "libstates_declare ext (i # rest) new_sdfg read_names write_names tf =
     (let (t, f) = tf;
          mapped = find_new_name ext (graphs t new_sdfg) i;
          t1 = t\<lparr>name_mapping :=
                   (name_mapping t)(new_sdfg := (name_mapping t new_sdfg)(i \<mapsto> mapped))\<rparr>;
          t2 = t1\<lparr>all_array_names := all_array_names t1 @ [mapped]\<rparr>;
          f1 = (if i \<in> set read_names
                then f\<lparr>ins_in_new_sdfg := ins_in_new_sdfg f @ [mapped]\<rparr> else f);
          f2 = (if i \<in> set write_names
                then f1\<lparr>outs_in_new_sdfg := outs_in_new_sdfg f1 @ [mapped]\<rparr> else f1);
          t3 = add_scalar new_sdfg mapped (BasicType ''int32'') ''Default'' False t2
      in libstates_declare ext rest new_sdfg read_names write_names (t3, f2))"

definition libstate_memlets ::
  "string \<Rightarrow> graph_id \<Rightarrow> graph_id \<Rightarrow> state_id \<Rightarrow> node_id \<Rightarrow> string list \<Rightarrow> string list \<Rightarrow>
   translator \<Rightarrow> error + translator" where
  "libstate_memlets i g new_sdfg substate internal_sdfg read_names write_names t =
     (let memlet = ''0'' in
      case (if i \<in> set write_names then
              (case name_mapping t g i of
                 None \<Rightarrow> Inl PyKeyError
               | Some outer \<Rightarrow>
                   (case name_mapping t new_sdfg i of
                      None \<Rightarrow> Inl PyKeyError
                    | Some inner \<Rightarrow>
                        Inr (add_memlet_write g substate outer internal_sdfg inner memlet t)))
            else Inr t) of
        Inl e \<Rightarrow> Inl e
      | Inr t1 \<Rightarrow>
          if i \<in> set read_names then
            (case name_mapping t1 g i of
               None \<Rightarrow> Inl PyKeyError
             | Some outer \<Rightarrow>
                 (case name_mapping t1 new_sdfg i of
                    None \<Rightarrow> Inl PyKeyError
                  | Some inner \<Rightarrow>
                      Inr (add_memlet_read g substate outer internal_sdfg inner memlet t1)))
          else Inr t1)"

fun libstates_memlets ::
  "string list \<Rightarrow> graph_id \<Rightarrow> graph_id \<Rightarrow> state_id \<Rightarrow> node_id \<Rightarrow> string list \<Rightarrow> string list \<Rightarrow>
   translator \<Rightarrow> error + translator" where
  "libstates_memlets [] g new_sdfg substate internal_sdfg read_names write_names t = Inr t"
| "libstates_memlets (i # rest) g new_sdfg substate internal_sdfg read_names write_names t =
     (case libstate_memlets i g new_sdfg substate internal_sdfg read_names write_names t of
        Inl e \<Rightarrow> Inl e
      | Inr t1 \<Rightarrow>
          libstates_memlets rest g new_sdfg substate internal_sdfg read_names write_names t1)"

text \<open>
  The library state of an external library call, in \<^verbatim>\<open>call2sdfg\<close>: \<open>libstate\<close> is
  \<^verbatim>\<open>self.libraries.get(node.name.name)\<close>; when there is one, the tasklet of the call gets
  a read and a write memlet for it.
\<close>

definition call2sdfg_libstate ::
  "string option \<Rightarrow> graph_id \<Rightarrow> state_id \<Rightarrow> node_id \<Rightarrow> translator \<Rightarrow> error + translator" where
  "call2sdfg_libstate libstate g substate tasklet t =
     (case libstate of
        None \<Rightarrow> Inr t
      | Some l \<Rightarrow>
          (case name_mapping t g l of
             None \<Rightarrow> Inl PyKeyError
           | Some m \<Rightarrow>
               Inr (add_memlet_write g substate m tasklet (m @ ''_task_out'') ''0''
                      (add_memlet_read g substate m tasklet (m @ ''_task'') ''0'' t))))"

text \<open>
  The wiring of one container argument \<open>i\<close> to the invocation node. \<^verbatim>\<open>ast_utils.get_name\<close>
  gives the name an argument refers to; a literal has none. The name is looked up in
  the name mapping of the calling graph, then among its symbols, then in the name
  mapping of the top-level graph. The range is empty for a scalar (or when the
  container has no shape), \<open>0\<close> for an array of shape \<open>[1]\<close>, else generated from the
  argument.
\<close>

fun get_name :: "'e arg \<Rightarrow> error + string" where
  "get_name (Name_Node n) = Inr n"
| "get_name (Array_Subscript_Node n indices) = Inr n"
| "get_name (Literal_Node v) = Inl PyNameError"

definition argument_container ::
  "string \<Rightarrow> graph_id \<Rightarrow> translator \<Rightarrow> error + (data_desc option \<times> string)" where
  "argument_container n g t =
     (case name_mapping t g n of
        Some m \<Rightarrow> Inr (arrays (graphs t g) m, m)
      | None \<Rightarrow>
          if symbols (graphs t g) n \<noteq> None then Inr (None, n)
          else (case name_mapping t (globalsdfg t) n of
                  Some m \<Rightarrow> Inr (arrays (graphs t (globalsdfg t)) m, m)
                | None \<Rightarrow> Inl PyNameError))"

definition argument_memlet ::
  "'e collaborators \<Rightarrow> 'e arg \<Rightarrow> data_desc option \<Rightarrow> graph_id \<Rightarrow> translator \<Rightarrow> string" where
  "argument_memlet ext i var g t =
     (case var of
        None \<Rightarrow> []
      | Some d \<Rightarrow>
          if length (shape d) = 0 then []
          else if shape d = [IntE 1] then ''0''
          else generate_memlet ext i g t)"

text \<open>
  The memlet between the invocation node and the access node \<open>n\<close> of a view: its range
  covers the view, \<^verbatim>\<open>[(0, s - 1, 1) for s in sdfg.arrays[n.label].shape]\<close>. A missing node
  has no label; a label that is no container is a \<^verbatim>\<open>KeyError\<close>.
\<close>

definition view_memlet :: "graph_id \<Rightarrow> state_id \<Rightarrow> node_id option \<Rightarrow> translator \<Rightarrow> error + memlet" where
  "view_memlet g substate n t =
     (case n of
        None \<Rightarrow> Inl PyAttributeError
      | Some k \<Rightarrow>
          (case nodes (states (graphs t g) ! substate) ! k of
             AccessNode l \<Rightarrow>
               (case arrays (graphs t g) l of
                  None \<Rightarrow> Inl PyKeyError
                | Some d \<Rightarrow> Inr (Memlet_subset l (map ZeroBelow (shape d))))
           | _ \<Rightarrow> Inl PyAttributeError))"

text \<open>
  \<^verbatim>\<open>for elem in views\<close>: an entry for the container and the position of the argument
  sets \<open>found\<close> and connects the invocation node with the access nodes of the view.
\<close>

fun wire_views ::
  "graph_id \<Rightarrow> state_id \<Rightarrow> node_id \<Rightarrow> string \<Rightarrow> nat \<Rightarrow> string \<Rightarrow> string \<Rightarrow> string list \<Rightarrow>
   string list \<Rightarrow> (string \<times> node_id option \<times> node_id option \<times> nat) list \<Rightarrow> bool \<Rightarrow>
   translator \<Rightarrow> error + bool \<times> translator" where
  "wire_views g substate internal_sdfg mapped_name arg_index local_name conn read_names
     write_names [] found t = Inr (found, t)"
| "wire_views g substate internal_sdfg mapped_name arg_index local_name conn read_names
     write_names (elem # rest) found t =
     (if mapped_name = fst elem \<and> snd (snd (snd elem)) = arg_index then
        (case (if local_name \<in> set write_names then
                 (case view_memlet g substate (fst (snd (snd elem))) t of
                    Inl e \<Rightarrow> Inl e
                  | Inr m \<Rightarrow>
                      Inr (add_dataflow_edge g substate internal_sdfg (Some conn)
                             (the (fst (snd (snd elem)))) None m t))
               else Inr t) of
           Inl e \<Rightarrow> Inl e
         | Inr t1 \<Rightarrow>
             (case (if local_name \<in> set read_names then
                      (case view_memlet g substate (fst (snd elem)) t1 of
                         Inl e \<Rightarrow> Inl e
                       | Inr m \<Rightarrow>
                           Inr (add_dataflow_edge g substate (the (fst (snd elem))) None
                                  internal_sdfg (Some conn) m t1))
                    else Inr t1) of
                Inl e \<Rightarrow> Inl e
              | Inr t2 \<Rightarrow>
                  wire_views g substate internal_sdfg mapped_name arg_index local_name conn
                    read_names write_names rest True t2))
      else wire_views g substate internal_sdfg mapped_name arg_index local_name conn read_names
             write_names rest found t)"

definition wire_argument ::
  "'e collaborators \<Rightarrow> graph_id \<Rightarrow> graph_id \<Rightarrow> state_id \<Rightarrow> node_id \<Rightarrow> 'e arg \<Rightarrow> string \<Rightarrow> nat \<Rightarrow>
   string list \<Rightarrow> string list \<Rightarrow> (string \<times> node_id option \<times> node_id option \<times> nat) list \<Rightarrow>
   translator \<Rightarrow> error + translator" where
  "wire_argument ext g new_sdfg substate internal_sdfg i local_name arg_index read_names
     write_names view_entries t =
     (case get_name i of
        Inl e \<Rightarrow> Inl e
      | Inr n \<Rightarrow>
          (case argument_container n g t of
             Inl e \<Rightarrow> Inl e
           | Inr (var, mapped_name) \<Rightarrow>
               (let memlet = argument_memlet ext i var g t in
                case name_mapping t new_sdfg local_name of
                  None \<Rightarrow>
                    if local_name \<in> set write_names \<or> local_name \<in> set read_names
                    then Inl PyKeyError else Inr t
                | Some conn \<Rightarrow>
                    (case wire_views g substate internal_sdfg mapped_name arg_index local_name
                            conn read_names write_names view_entries False t of
                       Inl e \<Rightarrow> Inl e
                     | Inr (found, t1) \<Rightarrow>
                         if \<not> found then
                           (let t2 = (if local_name \<in> set write_names
                                      then add_memlet_write g substate mapped_name internal_sdfg
                                             conn memlet t1
                                      else t1);
                                t3 = (if local_name \<in> set read_names
                                      then add_memlet_read g substate mapped_name internal_sdfg
                                             conn memlet t2
                                      else t2)
                            in Inr t3)
                         else Inr t1))))"

text \<open>
  The values \<open>xs\<close> has on the axes that the index list selects whole, and the index
  list as the loop records it: \<open>None\<close> for a whole axis, the symbolic offset otherwise.
\<close>

definition select_all_axes :: "'e index list \<Rightarrow> 'a list \<Rightarrow> 'a list" where
  "select_all_axes indices xs =
     map snd (filter (\<lambda>(i, x). case i of ParDecl_Node ty \<Rightarrow> True | Index_Node e \<Rightarrow> False)
                (zip indices xs))"

definition index_values ::
  "'e collaborators \<Rightarrow> graph_id \<Rightarrow> translator \<Rightarrow> 'e index list \<Rightarrow> symexpr option list" where
  "index_values ext g t indices =
     map (\<lambda>i. case i of
                ParDecl_Node ty \<Rightarrow> None
              | Index_Node e \<Rightarrow>
                  Some (pystr_to_symbolic ext
                          (processed_write_code ext g (graphs t g) (name_mapping t) e)))
       indices"

text \<open>Every \<^verbatim>\<open>ParDecl_Node\<close> of the index list has type \<open>ALL\<close>.\<close>

definition all_or_index :: "'e index list \<Rightarrow> bool" where
  "all_or_index indices =
     list_all (\<lambda>i. case i of ParDecl_Node ty \<Rightarrow> ty = ''ALL'' | Index_Node e \<Rightarrow> True) indices"

text \<open>
  A call site for the examples: the fresh translator after the declaration of a double
  array \<open>a\<close> of shape \<open>(5, 7)\<close> and the entry of \<^verbatim>\<open>subroutine2sdfg\<close> for a subroutine \<open>f(x)\<close>
  called with \<open>a(:, 3)\<close>; the new graph has handle \<open>1\<close>. \<open>array_5_7\<close> is the descriptor of
  \<open>a\<close>, \<open>array_1_5\<close> that of an array of shape \<open>(1, 5)\<close>.
\<close>

definition array_5_7 :: data_desc where
  "array_5_7 =
     \<lparr>kind = ArrayDesc, dtype = BasicType ''float64'', shape = [SymE ''5'', SymE ''7''],
      strides = [IntE 1, SymE ''5''], offset = [- 1, - 1], storage = ''Default'',
      transient = True\<rparr>"

definition array_1_5 :: data_desc where
  "array_1_5 =
     \<lparr>kind = ArrayDesc, dtype = BasicType ''float64'', shape = [IntE 1, SymE ''5''],
      strides = [IntE 1, IntE 1], offset = [- 1, - 1], storage = ''Default'',
      transient = True\<rparr>"

definition call_site :: translator where
  "call_site =
     (case vardecl2sdfg example_collaborators ''a'' ''DOUBLE'' False (Some [''5'', ''7'']) 0
             (AST_translator_init ''prog'') of
        Inl e \<Rightarrow> AST_translator_init ''prog''
      | Inr t \<Rightarrow>
          (case subroutine2sdfg_enter
                  \<lparr>sub_name = ''f'', sub_args = [''x''], result_type = Void,
                   execution_part = Some []\<rparr>
                  (Some [Array_Subscript_Node ''a'' [ParDecl_Node ''ALL'', Index_Node ''3'']])
                  0 1 t of
             Inr (Some (substate, variables_in_call, parameters, t')) \<Rightarrow> t'
           | _ \<Rightarrow> t))"

definition empty_frame :: call_frame where
  "empty_frame = \<lparr>ins_in_new_sdfg = [], outs_in_new_sdfg = [], view_list = []\<rparr>"

text \<open>The call site after the formal parameter \<open>x\<close> was bound in the new graph.\<close>

definition call_site_bound :: translator where
  "call_site_bound = call_site\<lparr>name_mapping := (name_mapping call_site)(1 := [''x'' \<mapsto> ''x''])\<rparr>"

text \<open>
  How a data-movement edge \<open>e\<close> touches the node \<open>n\<close>: the input connector of \<open>n\<close> it
  enters (an incoming, read edge of \<open>n\<close>), the output connector of \<open>n\<close> it leaves (an
  outgoing, write edge), and its memlet.
\<close>

definition edge_at :: "node_id \<Rightarrow> dataflow_edge \<Rightarrow> string option \<times> string option \<times> memlet" where
  "edge_at n e =
     (if df_dst e = n then dst_conn e else None, if df_src e = n then src_conn e else None,
      df_memlet e)"

text \<open>
  The edges the second loop over the library states is to add for the invocation node,
  as \<open>edge_at\<close> sees them: for each library state, in the order of \<^verbatim>\<open>self.libstates\<close>, an
  outgoing edge if the callee writes it by name, then an incoming edge if the callee
  reads it by name.
\<close>

definition libstate_edges ::
  "translator \<Rightarrow> graph_id \<Rightarrow> graph_id \<Rightarrow> string list \<Rightarrow> string list \<Rightarrow> string list \<Rightarrow>
   (string option \<times> string option \<times> memlet) list" where
  "libstate_edges t g new_sdfg read_names write_names libs =
     concat (map (\<lambda>i.
        (if i \<in> set write_names
         then [(None, name_mapping t new_sdfg i, Memlet_text (the (name_mapping t g i)) ''0'')]
         else []) @
        (if i \<in> set read_names
         then [(name_mapping t new_sdfg i, None, Memlet_text (the (name_mapping t g i)) ''0'')]
         else [])) libs)"

text \<open>
  The call site with a registered library state \<open>lib\<close>, bound in the calling graph and
  in the new graph, and with the invocation node in the state of the call.
\<close>

definition call_site_lib :: translator where
  "call_site_lib =
     snd (add_nested_sdfg 0 0 ''f'' [] []
            (call_site\<lparr>libstates := [''lib''],
                        name_mapping := (\<lambda>g. [''lib'' \<mapsto> ''lib''])\<rparr>))"

section \<open>Properties\<close>

subsection \<open>The primitives of the state machine\<close>

lemma add_edge_simps [simp]:
  "states (graphs (add_edge g u v c a t) g') = states (graphs t g')"
  "edges (graphs (add_edge g u v c a t) g) = edges (graphs t g) @ [\<lparr>src = u, dst = v, condition = c, assignments = a\<rparr>]"
  "g' \<noteq> g \<Longrightarrow> graphs (add_edge g u v c a t) g' = graphs t g'"
  "arrays (graphs (add_edge g u v c a t) g') = arrays (graphs t g')"
  "symbols (graphs (add_edge g u v c a t) g') = symbols (graphs t g')"
  "name_mapping (add_edge g u v c a t) = name_mapping t"
  "last_loop_continues (add_edge g u v c a t) = last_loop_continues t"
  "last_loop_breaks (add_edge g u v c a t) = last_loop_breaks t"
  "last_returns (add_edge g u v c a t) = last_returns t"
  "last_sdfg_states (add_edge g u v c a t) = last_sdfg_states t"
  by (simp_all add: add_edge_def Let_def)

lemma add_state_simps [simp]:
  "fst (add_state g l t) = length (states (graphs t g))"
  "states (graphs (snd (add_state g l t)) g) = states (graphs t g) @ [\<lparr>label = l, nodes = [], dataflow = []\<rparr>]"
  "edges (graphs (snd (add_state g l t)) g') = edges (graphs t g')"
  "g' \<noteq> g \<Longrightarrow> graphs (snd (add_state g l t)) g' = graphs t g'"
  "arrays (graphs (snd (add_state g l t)) g') = arrays (graphs t g')"
  "symbols (graphs (snd (add_state g l t)) g') = symbols (graphs t g')"
  "name_mapping (snd (add_state g l t)) = name_mapping t"
  "last_loop_continues (snd (add_state g l t)) = last_loop_continues t"
  "last_loop_breaks (snd (add_state g l t)) = last_loop_breaks t"
  "last_returns (snd (add_state g l t)) = last_returns t"
  "last_sdfg_states (snd (add_state g l t)) = last_sdfg_states t"
  by (simp_all add: add_state_def Let_def)

lemma add_simple_state_simps [simp]:
  "fst (add_simple_state_to_sdfg g l t) = length (states (graphs t g))"
  "states (graphs (snd (add_simple_state_to_sdfg g l t)) g) = states (graphs t g) @ [\<lparr>label = l, nodes = [], dataflow = []\<rparr>]"
  "edges (graphs (snd (add_simple_state_to_sdfg g l t)) g) =
     edges (graphs t g) @ (case last_sdfg_states t g of None \<Rightarrow> [] | Some tail \<Rightarrow>
        [\<lparr>src = tail, dst = length (states (graphs t g)), condition = None, assignments = []\<rparr>])"
  "g' \<noteq> g \<Longrightarrow> graphs (snd (add_simple_state_to_sdfg g l t)) g' = graphs t g'"
  "arrays (graphs (snd (add_simple_state_to_sdfg g l t)) g') = arrays (graphs t g')"
  "symbols (graphs (snd (add_simple_state_to_sdfg g l t)) g') = symbols (graphs t g')"
  "name_mapping (snd (add_simple_state_to_sdfg g l t)) = name_mapping t"
  "last_loop_continues (snd (add_simple_state_to_sdfg g l t)) = last_loop_continues t"
  "last_loop_breaks (snd (add_simple_state_to_sdfg g l t)) = last_loop_breaks t"
  "last_returns (snd (add_simple_state_to_sdfg g l t)) = last_returns t"
  "last_sdfg_states (snd (add_simple_state_to_sdfg g l t)) = (last_sdfg_states t)(g \<mapsto> length (states (graphs t g)))"
  by (simp_all add: add_simple_state_to_sdfg_def Let_def case_prod_beta split: option.splits)

lemma cfg_extends_refl [simp]: "cfg_extends g t t"
  by (simp add: cfg_extends_def)

lemma cfg_extends_trans: "cfg_extends g a b \<Longrightarrow> cfg_extends g b c \<Longrightarrow> cfg_extends g a c"
  unfolding cfg_extends_def
  by (auto dest: prefix_length_le elim: prefix_order.trans)

lemma cfg_extends_add_edge [simp]: "cfg_extends g t (add_edge g u v c a t)"
  by (simp add: cfg_extends_def)

lemma cfg_extends_add_state [simp]: "cfg_extends g t (snd (add_state g l t))"
  by (simp add: cfg_extends_def)

lemma cfg_extends_add_simple_state [simp]: "cfg_extends g t (snd (add_simple_state_to_sdfg g l t))"
  by (simp add: cfg_extends_def)

lemma cfg_extends_tail [simp]: "cfg_extends g t (t\<lparr>last_sdfg_states := x\<rparr>)"
  by (simp add: cfg_extends_def)

lemma cfg_extends_breaks [simp]: "cfg_extends g t (t\<lparr>last_loop_breaks := x\<rparr>)"
  by (simp add: cfg_extends_def)

lemma cfg_extends_step: "cfg_extends g a b \<Longrightarrow> cfg_extends g b c \<Longrightarrow> cfg_extends g a c"
  by (rule cfg_extends_trans)











lemma cfg_same_refl [simp]: "cfg_same t t"
  by (simp add: cfg_same_def)



lemma cfg_same_add_datadesc [simp]: "cfg_same t (add_datadesc g n d t)"
  by (simp add: cfg_same_def add_datadesc_def Let_def)

lemma cfg_same_context [simp]: "cfg_same t (context_add_container g n t)"
  by (simp add: cfg_same_def context_add_container_def Let_def)











subsection \<open>Unsupported constructs\<close>

text \<open>
  Claim C10. The handler of a symbol-array declaration ends normally: it builds the
  \<^verbatim>\<open>NotImplementedError\<close> and returns it, \<^verbatim>\<open>translate\<close> drops the returned object, the
  translator is unchanged and the statements after the declaration are translated as
  if it were not there. The handler of a write statement raises, and the translation
  of the list it stands in stops with that exception.
\<close>

theorem symbolarray_returns_write_raises:
  "symbolarray2sdfg g t = Inr (Some UnsupportedConstruct, t) \<and>
   translate ext Symbol_Array_Decl_Node g t = Inr t \<and>
   translate_list ext (Symbol_Array_Decl_Node # node) g t = translate_list ext node g t \<and>
   write2sdfg g t = Inl UnsupportedConstruct \<and>
   translate ext Write_Stmt_Node g t = Inl UnsupportedConstruct \<and>
   translate_list ext (Write_Stmt_Node # node) g t = Inl UnsupportedConstruct"
  by (simp add: symbolarray2sdfg_def write2sdfg_def)

subsection \<open>Pointer assignment\<close>

lemma pointer_scan_never_raises: "\<exists>ua'. pointer_scan False p idx ua = Inr ua'"
proof (induction "length ua - idx" arbitrary: idx ua rule: less_induct)
  case less
  show ?case
  proof (cases "idx < length ua")
    case False
    then show ?thesis by (subst pointer_scan.simps) simp
  next
    case True
    show ?thesis
    proof (cases "fst (ua ! idx) = p")
      case m: True
      have "ua ! idx \<in> set ua" using True by simp
      then have "length (remove1 (ua ! idx) ua) - (idx + 1) < length ua - idx"
        using True by (simp add: length_remove1)
      from less [OF this] show ?thesis
        using True m by (subst pointer_scan.simps) (simp add: Let_def)
    next
      case m: False
      have "length ua - (idx + 1) < length ua - idx" using True by simp
      from less [OF this] show ?thesis
        using True m by (subst pointer_scan.simps) (simp add: Let_def)
    qed
  qed
qed

text \<open>
  Claim C9. A pointer assignment whose target is bound in the current graph never
  fails: the check on \<open>found\<close> reads a flag that is \<open>False\<close> all through the loop, so
  the exception "Multiple unallocated arrays with the same name" is raised for no
  worklist, whatever the number of entries with the pointer's name. This is the
  behaviour of the code; the specification notes it as an apparent slip.
\<close>

theorem pointer_duplicate_check_inert:
  "(name_mapping t g name_target \<noteq> None \<longrightarrow>
      (\<exists>t'. pointerassignment2sdfg name_pointer name_target g t = Inr t')) \<and>
   pointerassignment2sdfg name_pointer name_target g t \<noteq> Inl AmbiguousAllocation"
  using pointer_scan_never_raises [of name_pointer 0 "unallocated_arrays t"]
  by (auto simp: pointerassignment2sdfg_def split: option.splits)

theorem pointer_duplicate_check_inert_witness:
  "name_mapping two_unallocated 0 ''q'' \<noteq> None \<and>
   length (filter (\<lambda>i. fst i = ''p'') (unallocated_arrays two_unallocated)) = 2 \<and>
   (\<exists>t'. pointerassignment2sdfg ''p'' ''q'' 0 two_unallocated = Inr t') \<and>
   pointerassignment2sdfg ''p'' ''q'' 0 two_unallocated \<noteq> Inl AmbiguousAllocation"
  using pointer_duplicate_check_inert [of two_unallocated 0 "''q''" "''p''"]
  by (simp add: two_unallocated_def AST_translator_init_def)

subsection \<open>Deferred allocation\<close>

lemma unallocated_allocate_entry [simp]:
  "unallocated_arrays (allocate_entry ext i j g t) = remove1 j (unallocated_arrays t)"
  by (simp add: allocate_entry_def add_array_def add_datadesc_def context_add_container_def Let_def)

lemma allocate_scan_no_match:
  "filter (allocation_matches i g) (drop idx (unallocated_arrays t)) = [] \<Longrightarrow>
   allocate_scan ext i g idx t = t"
proof (induction "length (unallocated_arrays t) - idx" arbitrary: idx rule: less_induct)
  case less
  show ?case
  proof (cases "idx < length (unallocated_arrays t)")
    case False
    then show ?thesis by (subst allocate_scan.simps) simp
  next
    case True
    let ?ua = "unallocated_arrays t"
    have d: "drop idx ?ua = ?ua ! idx # drop (Suc idx) ?ua"
      using True by (simp add: Cons_nth_drop_Suc)
    from less.prems d have nm: "\<not> allocation_matches i g (?ua ! idx)"
      and r: "filter (allocation_matches i g) (drop (Suc idx) ?ua) = []"
      by (auto split: if_splits)
    have "length ?ua - Suc idx < length ?ua - idx" using True by simp
    from less.hyps [OF this r] show ?thesis
      using True nm by (subst allocate_scan.simps) (auto simp: Let_def allocation_matches_def)
  qed
qed

lemma allocate_scan_one_match:
  "filter (allocation_matches i g) (unallocated_arrays t) = [j] \<Longrightarrow>
   filter (allocation_matches i g) (drop idx (unallocated_arrays t)) = [j] \<Longrightarrow>
   allocate_scan ext i g idx t = allocate_entry ext i j g t"
proof (induction "length (unallocated_arrays t) - idx" arbitrary: idx rule: less_induct)
  case less
  let ?ua = "unallocated_arrays t"
  have True: "idx < length ?ua"
  proof (rule ccontr)
    assume "\<not> idx < length ?ua"
    then have "drop idx ?ua = []" by simp
    with less.prems(2) show False by simp
  qed
  have d: "drop idx ?ua = ?ua ! idx # drop (Suc idx) ?ua"
    using True by (simp add: Cons_nth_drop_Suc)
  show ?case
  proof (cases "allocation_matches i g (?ua ! idx)")
    case m: True
    from less.prems(2) d m have j: "?ua ! idx = j" by simp
    have "filter (allocation_matches i g) (remove1 j ?ua) = []"
      using less.prems(1) by (simp add: filter_remove1)
    then have "\<forall>x \<in> set (remove1 j ?ua). \<not> allocation_matches i g x"
      by (simp add: filter_empty_conv)
    then have "\<forall>x \<in> set (drop (Suc idx) (remove1 j ?ua)). \<not> allocation_matches i g x"
      by (meson in_set_dropD)
    then have "filter (allocation_matches i g)
                 (drop (Suc idx) (unallocated_arrays (allocate_entry ext i j g t))) = []"
      by (simp add: filter_empty_conv)
    then have "allocate_scan ext i g (Suc idx) (allocate_entry ext i j g t) = allocate_entry ext i j g t"
      by (rule allocate_scan_no_match)
    then show ?thesis
      using True m j by (subst allocate_scan.simps) (auto simp: Let_def allocation_matches_def)
  next
    case m: False
    from less.prems(2) d m
    have r: "filter (allocation_matches i g) (drop (Suc idx) ?ua) = [j]" by simp
    have "length ?ua - Suc idx < length ?ua - idx" using True by simp
    from less.hyps [OF this less.prems(1) r] show ?thesis
      using True m by (subst allocate_scan.simps) (auto simp: Let_def allocation_matches_def)
  qed
qed

lemma allocate2sdfg_returns: "\<exists>t'. allocate2sdfg ext allocation_list g t = Inr t'"
  by (induction allocation_list arbitrary: t) simp_all

text \<open>
  Claim C2, as amended. \<^verbatim>\<open>allocate2sdfg\<close> has no check for duplicate matches and never
  raises: every allocate statement is translated, whatever the worklist holds. When
  exactly one worklist entry matches the target of an allocate statement (same name,
  same owning graph), that entry is removed from the worklist, the name is bound to a
  new container name and the array is added under it with the sizes of the allocate
  statement, offsets \<open>-1\<close>, and the data type and transient flag of the entry.
\<close>

theorem allocate_no_ambiguity_check:
  "(\<exists>t'. allocate2sdfg ext allocation_list g t = Inr t') \<and>
   (filter (allocation_matches i g) (unallocated_arrays t) = [j] \<longrightarrow>
      (\<exists>t'. allocate2sdfg ext [i] g t = Inr t' \<and>
         unallocated_arrays t' = remove1 j (unallocated_arrays t) \<and>
         name_mapping t' g (fst i) = Some (find_new_name ext (graphs t g) (fst i)) \<and>
         arrays (graphs t' g) (find_new_name ext (graphs t g) (fst i)) =
           Some \<lparr>kind = ArrayDesc, dtype = fst (snd j), shape = sizes_of ext g t (snd i),
                  strides = strides_of ext (sizes_of ext g t (snd i)),
                  offset = offsets_of (snd i), storage = ''Default'',
                  transient = snd (snd (snd j))\<rparr>))"
proof (intro conjI impI)
  show "\<exists>t'. allocate2sdfg ext allocation_list g t = Inr t'"
    by (rule allocate2sdfg_returns)
next
  assume one: "filter (allocation_matches i g) (unallocated_arrays t) = [j]"
  have "allocate_scan ext i g 0 t = allocate_entry ext i j g t"
    using one by (intro allocate_scan_one_match) simp_all
  then have "allocate2sdfg ext [i] g t = Inr (allocate_entry ext i j g t)" by simp
  moreover have "name_mapping (allocate_entry ext i j g t) g (fst i) =
      Some (find_new_name ext (graphs t g) (fst i))"
    by (simp add: allocate_entry_def add_array_def add_datadesc_def context_add_container_def Let_def)
  moreover have "arrays (graphs (allocate_entry ext i j g t) g) (find_new_name ext (graphs t g) (fst i)) =
           Some \<lparr>kind = ArrayDesc, dtype = fst (snd j), shape = sizes_of ext g t (snd i),
                  strides = strides_of ext (sizes_of ext g t (snd i)),
                  offset = offsets_of (snd i), storage = ''Default'',
                  transient = snd (snd (snd j))\<rparr>"
    by (simp add: allocate_entry_def add_array_def add_datadesc_def context_add_container_def Let_def
          sizes_of_def)
  ultimately show "\<exists>t'. allocate2sdfg ext [i] g t = Inr t' \<and>
         unallocated_arrays t' = remove1 j (unallocated_arrays t) \<and>
         name_mapping t' g (fst i) = Some (find_new_name ext (graphs t g) (fst i)) \<and>
         arrays (graphs t' g) (find_new_name ext (graphs t g) (fst i)) =
           Some \<lparr>kind = ArrayDesc, dtype = fst (snd j), shape = sizes_of ext g t (snd i),
                  strides = strides_of ext (sizes_of ext g t (snd i)),
                  offset = offsets_of (snd i), storage = ''Default'',
                  transient = snd (snd (snd j))\<rparr>"
    by simp
qed

text \<open>
  Claim C2 as stated fails: with two worklist entries that match the target, the
  allocate statement is translated without an error; one of the two entries stays on
  the worklist.
\<close>

theorem allocate_ambiguous_counterexample:
  "length (filter (allocation_matches (''p'', [''5'']) 0) (unallocated_arrays two_unallocated)) = 2 \<and>
   allocate2sdfg example_collaborators [(''p'', [''5''])] 0 two_unallocated \<noteq> Inl AmbiguousAllocation \<and>
   map_sum id unallocated_arrays
     (allocate2sdfg example_collaborators [(''p'', [''5''])] 0 two_unallocated) =
     Inr [(''p'', BasicType ''float64'', 0, True)]"
  by (simp add: two_unallocated_def AST_translator_init_def allocation_matches_def
        allocate_scan.simps Let_def)


theorem allocate_no_ambiguity_check_witness:
  "filter (allocation_matches (''x'', [''n'', ''m'']) 0)
     [(''y'', BasicType ''int32'', 0, True), (''x'', BasicType ''float64'', 0, True),
      (''x'', BasicType ''float64'', 1, True)] = [(''x'', BasicType ''float64'', 0, True)] \<and>
   (\<exists>t'. allocate2sdfg example_collaborators [(''x'', [''n'', ''m''])] 0
           ((AST_translator_init ''prog'')
              \<lparr>unallocated_arrays :=
                 [(''y'', BasicType ''int32'', 0, True), (''x'', BasicType ''float64'', 0, True),
                  (''x'', BasicType ''float64'', 1, True)]\<rparr>) = Inr t' \<and>
         unallocated_arrays t' =
           [(''y'', BasicType ''int32'', 0, True), (''x'', BasicType ''float64'', 1, True)] \<and>
         name_mapping t' 0 ''x'' = Some ''x'' \<and>
         map_option shape (arrays (graphs t' 0) ''x'') = Some [SymE ''n'', SymE ''m''])"
  using allocate_no_ambiguity_check [of example_collaborators "[]" 0
      "(AST_translator_init ''prog'')
              \<lparr>unallocated_arrays :=
                 [(''y'', BasicType ''int32'', 0, True), (''x'', BasicType ''float64'', 0, True),
                  (''x'', BasicType ''float64'', 1, True)]\<rparr>"
      "(''x'', [''n'', ''m''])" "(''x'', BasicType ''float64'', 0, True)"]
  by (simp add: AST_translator_init_def allocation_matches_def example_collaborators_def
        SDFG_def sizes_of_def)


subsection \<open>Declarations\<close>



subsection \<open>Guards of branches and loops\<close>





















subsection \<open>Loops and breaks\<close>





















subsection \<open>Array arguments and views\<close>

lemma subscript_scan_full_rank:
  "all_or_index rest \<Longrightarrow> length ss = length rest \<Longrightarrow> length os = length rest \<Longrightarrow>
   indices + length rest \<le> length (shape array) \<Longrightarrow>
   changed \<le> indices \<Longrightarrow> length ps = indices - changed \<Longrightarrow> length po = indices - changed \<Longrightarrow>
   subscript_scan ext g t array rest indices changed shp il (ps @ ss) (po @ os) =
     Inr (shp @ select_all_axes rest (drop indices (shape array)),
          il @ index_values ext g t rest,
          ps @ select_all_axes rest ss, po @ select_all_axes rest os)"
proof (induction rest arbitrary: indices changed shp il ps ss po os)
  case Nil
  then show ?case by (simp add: select_all_axes_def index_values_def)
next
  case (Cons i rest)
  from Cons.prems obtain s ss' where ss: "ss = s # ss'" by (cases ss) auto
  from Cons.prems obtain o1 os' where os: "os = o1 # os'" by (cases os) auto
  have lt: "indices < length (shape array)" using Cons.prems by simp
  have d: "drop indices (shape array) = shape array ! indices # drop (Suc indices) (shape array)"
    using lt by (simp add: Cons_nth_drop_Suc)
  show ?case
  proof (cases i)
    case (ParDecl_Node ty)
    with Cons.prems have ty: "ty = ''ALL''" and r: "all_or_index rest"
      by (simp_all add: all_or_index_def)
    have "subscript_scan ext g t array rest (Suc indices) changed (shp @ [shape array ! indices])
            (il @ [None]) ((ps @ [s]) @ ss') ((po @ [o1]) @ os') =
          Inr ((shp @ [shape array ! indices]) @ select_all_axes rest (drop (Suc indices) (shape array)),
               (il @ [None]) @ index_values ext g t rest,
               (ps @ [s]) @ select_all_axes rest ss', (po @ [o1]) @ select_all_axes rest os')"
      using Cons.prems r ss os by (intro Cons.IH) auto
    then show ?thesis
      using ParDecl_Node ty lt ss os d
      by (simp add: select_all_axes_def index_values_def)
  next
    case (Index_Node e)
    with Cons.prems have r: "all_or_index rest" by (simp add: all_or_index_def)
    have k: "indices - changed = length ps" "indices - changed = length po"
      using Cons.prems by simp_all
    have "subscript_scan ext g t array rest (Suc indices) (Suc changed) shp
            (il @ [Some (pystr_to_symbolic ext
                (processed_write_code ext g (graphs t g) (name_mapping t) e))]) (ps @ ss') (po @ os') =
          Inr (shp @ select_all_axes rest (drop (Suc indices) (shape array)),
               (il @ [Some (pystr_to_symbolic ext
                (processed_write_code ext g (graphs t g) (name_mapping t) e))]) @
                 index_values ext g t rest,
               ps @ select_all_axes rest ss', po @ select_all_axes rest os')"
      using Cons.prems r ss os by (intro Cons.IH) auto
    then show ?thesis
      using Index_Node ss os d k
      by (simp add: select_all_axes_def index_values_def pop_def Let_def)
  qed
qed



lemma update_state_simps [simp]:
  "st < length (states (graphs t g)) \<Longrightarrow>
     states (graphs (update_state g st f t) g) ! st = f (states (graphs t g) ! st)"
  "length (states (graphs (update_state g st f t) g')) = length (states (graphs t g'))"
  "g' \<noteq> g \<Longrightarrow> graphs (update_state g st f t) g' = graphs t g'"
  "arrays (graphs (update_state g st f t) g') = arrays (graphs t g')"
  "symbols (graphs (update_state g st f t) g') = symbols (graphs t g')"
  "edges (graphs (update_state g st f t) g') = edges (graphs t g')"
  "name_mapping (update_state g st f t) = name_mapping t"
  "views (update_state g st f t) = views t"
  "all_array_names (update_state g st f t) = all_array_names t"
  "globalsdfg (update_state g st f t) = globalsdfg t"
  by (simp_all add: update_state_def Let_def)

lemma add_node_simps [simp]:
  "fst (add_node g st n t) = length (nodes (states (graphs t g) ! st))"
  "st < length (states (graphs t g)) \<Longrightarrow>
     nodes (states (graphs (snd (add_node g st n t)) g) ! st) =
       nodes (states (graphs t g) ! st) @ [n]"
  "st < length (states (graphs t g)) \<Longrightarrow>
     dataflow (states (graphs (snd (add_node g st n t)) g) ! st) =
       dataflow (states (graphs t g) ! st)"
  "length (states (graphs (snd (add_node g st n t)) g')) = length (states (graphs t g'))"
  "g' \<noteq> g \<Longrightarrow> graphs (snd (add_node g st n t)) g' = graphs t g'"
  "arrays (graphs (snd (add_node g st n t)) g') = arrays (graphs t g')"
  "symbols (graphs (snd (add_node g st n t)) g') = symbols (graphs t g')"
  "edges (graphs (snd (add_node g st n t)) g') = edges (graphs t g')"
  "name_mapping (snd (add_node g st n t)) = name_mapping t"
  "views (snd (add_node g st n t)) = views t"
  "all_array_names (snd (add_node g st n t)) = all_array_names t"
  "globalsdfg (snd (add_node g st n t)) = globalsdfg t"
  by (simp_all add: add_node_def)

lemma add_dataflow_edge_simps [simp]:
  "st < length (states (graphs t g)) \<Longrightarrow>
     nodes (states (graphs (add_dataflow_edge g st u uc v vc m t) g) ! st) =
       nodes (states (graphs t g) ! st)"
  "st < length (states (graphs t g)) \<Longrightarrow>
     dataflow (states (graphs (add_dataflow_edge g st u uc v vc m t) g) ! st) =
       dataflow (states (graphs t g) ! st) @
         [\<lparr>df_src = u, src_conn = uc, df_dst = v, dst_conn = vc, df_memlet = m\<rparr>]"
  "length (states (graphs (add_dataflow_edge g st u uc v vc m t) g')) = length (states (graphs t g'))"
  "g' \<noteq> g \<Longrightarrow> graphs (add_dataflow_edge g st u uc v vc m t) g' = graphs t g'"
  "arrays (graphs (add_dataflow_edge g st u uc v vc m t) g') = arrays (graphs t g')"
  "symbols (graphs (add_dataflow_edge g st u uc v vc m t) g') = symbols (graphs t g')"
  "edges (graphs (add_dataflow_edge g st u uc v vc m t) g') = edges (graphs t g')"
  "name_mapping (add_dataflow_edge g st u uc v vc m t) = name_mapping t"
  "views (add_dataflow_edge g st u uc v vc m t) = views t"
  "all_array_names (add_dataflow_edge g st u uc v vc m t) = all_array_names t"
  "globalsdfg (add_dataflow_edge g st u uc v vc m t) = globalsdfg t"
  by (simp_all add: add_dataflow_edge_def)

lemma add_datadesc_simps [simp]:
  "arrays (graphs (add_datadesc g n d t) g) = (arrays (graphs t g))(n \<mapsto> d)"
  "g' \<noteq> g \<Longrightarrow> graphs (add_datadesc g n d t) g' = graphs t g'"
  "states (graphs (add_datadesc g n d t) g') = states (graphs t g')"
  "edges (graphs (add_datadesc g n d t) g') = edges (graphs t g')"
  "symbols (graphs (add_datadesc g n d t) g') = symbols (graphs t g')"
  "name_mapping (add_datadesc g n d t) = name_mapping t"
  "views (add_datadesc g n d t) = views t"
  "all_array_names (add_datadesc g n d t) = all_array_names t"
  "globalsdfg (add_datadesc g n d t) = globalsdfg t"
  by (simp_all add: add_datadesc_def Let_def)

lemma create_view_effect:
  assumes st: "substate < length (states (graphs t g))"
  shows "\<exists>t' wv rv.
    create_view g substate array_name array local_name arg_index read_names write_names
      shp index_list strs offs (t, f) =
      (t', f\<lparr>view_list := view_list f @ [(array_name, wv, rv, arg_index)]\<rparr>) \<and>
    (wv \<noteq> None) = (local_name \<in> set read_names) \<and>
    (rv \<noteq> None) = (local_name \<in> set write_names) \<and>
    arrays (graphs t' g) = (arrays (graphs t g))
      (array_name @ ''_view_'' @ str_nat (views t) \<mapsto>
         \<lparr>kind = ViewDesc, dtype = dtype array, shape = shp, strides = strs,
          offset = map (\<lambda>index. 0) offs, storage = storage array, transient = True\<rparr>) \<and>
    (\<forall>g'. g' \<noteq> g \<longrightarrow> graphs t' g' = graphs t g') \<and>
    name_mapping t' = name_mapping t \<and> all_array_names t' = all_array_names t \<and>
    views t' = views t + 1 \<and>
    length (states (graphs t' g)) = length (states (graphs t g)) \<and>
    nodes (states (graphs t' g) ! substate) =
      nodes (states (graphs t g) ! substate) @
      (if local_name \<in> set read_names
       then [AccessNode array_name, AccessNode (array_name @ ''_view_'' @ str_nat (views t))]
       else []) @
      (if local_name \<in> set write_names
       then [AccessNode (array_name @ ''_view_'' @ str_nat (views t)), AccessNode array_name]
       else []) \<and>
    map (\<lambda>e. (nodes (states (graphs t' g) ! substate) ! df_src e, src_conn e,
              nodes (states (graphs t' g) ! substate) ! df_dst e, dst_conn e))
      (drop (length (dataflow (states (graphs t g) ! substate)))
         (dataflow (states (graphs t' g) ! substate))) =
      (if local_name \<in> set read_names
       then [(AccessNode array_name, None,
              AccessNode (array_name @ ''_view_'' @ str_nat (views t)), Some ''views'')]
       else []) @
      (if local_name \<in> set write_names
       then [(AccessNode (array_name @ ''_view_'' @ str_nat (views t)), Some ''views2'',
              AccessNode array_name, None)]
       else [])"
  using st
  by (auto simp: create_view_def Let_def case_prod_beta add_view_def add_access_def nth_append)


lemma bind_sliced_argument:
  assumes ne: "g \<noteq> new_sdfg" and st: "substate < length (states (graphs t g))"
    and ok: "all_or_index indices" and rank: "length indices = length (shape array)"
    and ls: "length (strides array) = length (shape array)"
    and lo: "length (offset array) = length (shape array)"
    and ns: "select_all_axes indices (shape array) \<noteq> []"
      "select_all_axes indices (shape array) \<noteq> [IntE 1]"
  shows "\<exists>t' f' wv rv.
    bind_local_argument ext g new_sdfg substate array_name array
      (Array_Subscript_Node n indices) local_name arg_index read_names write_names (t, f) =
      Inr (t', f') \<and>
    arrays (graphs t' g) = (arrays (graphs t g))
      (array_name @ ''_view_'' @ str_nat (views t) \<mapsto>
         \<lparr>kind = ViewDesc, dtype = dtype array,
          shape = select_all_axes indices (shape array),
          strides = select_all_axes indices (strides array),
          offset = map (\<lambda>index. 0) (select_all_axes indices (offset array)),
          storage = storage array, transient = True\<rparr>) \<and>
    arrays (graphs t' new_sdfg) = (arrays (graphs t new_sdfg))
      (find_new_name ext (graphs t new_sdfg) local_name \<mapsto>
         \<lparr>kind = ArrayDesc, dtype = dtype array,
          shape = select_all_axes indices (shape array),
          strides = select_all_axes indices (strides array),
          offset = select_all_axes indices (offset array),
          storage = storage array, transient = False\<rparr>) \<and>
    name_mapping t' new_sdfg local_name = Some (find_new_name ext (graphs t new_sdfg) local_name) \<and>
    views t' = views t + 1 \<and>
    view_list f' = view_list f @ [(array_name, wv, rv, arg_index)] \<and>
    (wv \<noteq> None) = (local_name \<in> set read_names) \<and>
    (rv \<noteq> None) = (local_name \<in> set write_names) \<and>
    nodes (states (graphs t' g) ! substate) =
      nodes (states (graphs t g) ! substate) @
      (if local_name \<in> set read_names
       then [AccessNode array_name, AccessNode (array_name @ ''_view_'' @ str_nat (views t))]
       else []) @
      (if local_name \<in> set write_names
       then [AccessNode (array_name @ ''_view_'' @ str_nat (views t)), AccessNode array_name]
       else []) \<and>
    map (\<lambda>e. (nodes (states (graphs t' g) ! substate) ! df_src e, src_conn e,
              nodes (states (graphs t' g) ! substate) ! df_dst e, dst_conn e))
      (drop (length (dataflow (states (graphs t g) ! substate)))
         (dataflow (states (graphs t' g) ! substate))) =
      (if local_name \<in> set read_names
       then [(AccessNode array_name, None,
              AccessNode (array_name @ ''_view_'' @ str_nat (views t)), Some ''views'')]
       else []) @
      (if local_name \<in> set write_names
       then [(AccessNode (array_name @ ''_view_'' @ str_nat (views t)), Some ''views2'',
              AccessNode array_name, None)]
       else [])"
proof -
  define mapped where "mapped = find_new_name ext (graphs t new_sdfg) local_name"
  define t2 where "t2 = t\<lparr>name_mapping :=
      (name_mapping t)(new_sdfg := (name_mapping t new_sdfg)(local_name \<mapsto> mapped)),
      all_array_names := all_array_names t @ [mapped]\<rparr>"
  define f2 where "f2 = (if local_name \<in> set write_names
      then (if local_name \<in> set read_names
            then f\<lparr>ins_in_new_sdfg := ins_in_new_sdfg f @ [mapped]\<rparr> else f)
             \<lparr>outs_in_new_sdfg := outs_in_new_sdfg f @ [mapped]\<rparr>
      else (if local_name \<in> set read_names
            then f\<lparr>ins_in_new_sdfg := ins_in_new_sdfg f @ [mapped]\<rparr> else f))"
  have g2: "graphs t2 = graphs t" "views t2 = views t" by (simp_all add: t2_def)
  have scan: "subscript_scan ext g t2 array indices 0 0 [] [] (strides array) (offset array) =
      Inr (select_all_axes indices (shape array), index_values ext g t2 indices,
           select_all_axes indices (strides array), select_all_axes indices (offset array))"
    using subscript_scan_full_rank [of indices "strides array" "offset array" 0 array 0 "[]" "[]"
        ext g t2 "[]" "[]"] ok rank ls lo by simp
  have st2: "substate < length (states (graphs t2 g))" using st g2 by simp
  from create_view_effect [OF st2, of array_name array local_name arg_index read_names write_names
      "select_all_axes indices (shape array)" "index_values ext g t2 indices"
      "select_all_axes indices (strides array)" "select_all_axes indices (offset array)" f2]
  obtain tv wv rv where cv:
    "create_view g substate array_name array local_name arg_index read_names write_names
      (select_all_axes indices (shape array)) (index_values ext g t2 indices)
      (select_all_axes indices (strides array)) (select_all_axes indices (offset array)) (t2, f2) =
      (tv, f2\<lparr>view_list := view_list f2 @ [(array_name, wv, rv, arg_index)]\<rparr>)"
    and w: "(wv \<noteq> None) = (local_name \<in> set read_names)"
      "(rv \<noteq> None) = (local_name \<in> set write_names)"
    and av: "arrays (graphs tv g) = (arrays (graphs t2 g))
      (array_name @ ''_view_'' @ str_nat (views t2) \<mapsto>
         \<lparr>kind = ViewDesc, dtype = dtype array, shape = select_all_axes indices (shape array),
          strides = select_all_axes indices (strides array),
          offset = map (\<lambda>index. 0) (select_all_axes indices (offset array)),
          storage = storage array, transient = True\<rparr>)"
    and og: "\<forall>g'. g' \<noteq> g \<longrightarrow> graphs tv g' = graphs t2 g'"
    and nm: "name_mapping tv = name_mapping t2"
    and vw: "views tv = views t2 + 1"
    and nd: "nodes (states (graphs tv g) ! substate) =
      nodes (states (graphs t2 g) ! substate) @
      (if local_name \<in> set read_names
       then [AccessNode array_name, AccessNode (array_name @ ''_view_'' @ str_nat (views t2))]
       else []) @
      (if local_name \<in> set write_names
       then [AccessNode (array_name @ ''_view_'' @ str_nat (views t2)), AccessNode array_name]
       else [])"
    and ed: "map (\<lambda>e. (nodes (states (graphs tv g) ! substate) ! df_src e, src_conn e,
              nodes (states (graphs tv g) ! substate) ! df_dst e, dst_conn e))
      (drop (length (dataflow (states (graphs t2 g) ! substate)))
         (dataflow (states (graphs tv g) ! substate))) =
      (if local_name \<in> set read_names
       then [(AccessNode array_name, None,
              AccessNode (array_name @ ''_view_'' @ str_nat (views t2)), Some ''views'')]
       else []) @
      (if local_name \<in> set write_names
       then [(AccessNode (array_name @ ''_view_'' @ str_nat (views t2)), Some ''views2'',
              AccessNode array_name, None)]
       else [])"
    by blast
  let ?t' = "add_array new_sdfg mapped (select_all_axes indices (shape array)) (dtype array)
      (storage array) (select_all_axes indices (offset array))
      (select_all_axes indices (strides array)) False tv"
  let ?f' = "f2\<lparr>view_list := view_list f2 @ [(array_name, wv, rv, arg_index)]\<rparr>"
  have res: "bind_local_argument ext g new_sdfg substate array_name array
      (Array_Subscript_Node n indices) local_name arg_index read_names write_names (t, f) =
      Inr (?t', ?f')"
    using ns scan cv
    by (cases "local_name \<in> set read_names"; cases "local_name \<in> set write_names";
        simp add: bind_local_argument_def Let_def mapped_def [symmetric] t2_def [symmetric]
          f2_def)
  have ng: "graphs tv new_sdfg = graphs t2 new_sdfg" using og ne by simp
  have 1: "arrays (graphs ?t' g) = (arrays (graphs t g))
      (array_name @ ''_view_'' @ str_nat (views t) \<mapsto>
         \<lparr>kind = ViewDesc, dtype = dtype array,
          shape = select_all_axes indices (shape array),
          strides = select_all_axes indices (strides array),
          offset = map (\<lambda>index. 0) (select_all_axes indices (offset array)),
          storage = storage array, transient = True\<rparr>)"
    using av ne g2 by (simp add: add_array_def)
  have 2: "arrays (graphs ?t' new_sdfg) = (arrays (graphs t new_sdfg))
      (mapped \<mapsto>
         \<lparr>kind = ArrayDesc, dtype = dtype array,
          shape = select_all_axes indices (shape array),
          strides = select_all_axes indices (strides array),
          offset = select_all_axes indices (offset array),
          storage = storage array, transient = False\<rparr>)"
    using ng g2 by (simp add: add_array_def)
  have 3: "name_mapping ?t' new_sdfg local_name = Some mapped"
    using nm by (simp add: add_array_def t2_def)
  have 4: "views ?t' = views t + 1" using vw g2 by (simp add: add_array_def)
  have 5: "view_list ?f' = view_list f @ [(array_name, wv, rv, arg_index)]"
    by (simp add: f2_def)
  have sg: "states (graphs ?t' g) = states (graphs tv g)" by (simp add: add_array_def)
  have 6: "nodes (states (graphs ?t' g) ! substate) =
      nodes (states (graphs t g) ! substate) @
      (if local_name \<in> set read_names
       then [AccessNode array_name, AccessNode (array_name @ ''_view_'' @ str_nat (views t))]
       else []) @
      (if local_name \<in> set write_names
       then [AccessNode (array_name @ ''_view_'' @ str_nat (views t)), AccessNode array_name]
       else [])"
    using nd g2 sg by simp
  have 7: "map (\<lambda>e. (nodes (states (graphs ?t' g) ! substate) ! df_src e, src_conn e,
              nodes (states (graphs ?t' g) ! substate) ! df_dst e, dst_conn e))
      (drop (length (dataflow (states (graphs t g) ! substate)))
         (dataflow (states (graphs ?t' g) ! substate))) =
      (if local_name \<in> set read_names
       then [(AccessNode array_name, None,
              AccessNode (array_name @ ''_view_'' @ str_nat (views t)), Some ''views'')]
       else []) @
      (if local_name \<in> set write_names
       then [(AccessNode (array_name @ ''_view_'' @ str_nat (views t)), Some ''views2'',
              AccessNode array_name, None)]
       else [])"
    using ed g2 sg by simp
  show ?thesis
    unfolding mapped_def [symmetric]
    by (intro exI [of _ ?t'] exI [of _ ?f'] exI [of _ wv] exI [of _ rv] conjI
          res 1 2 3 4 5 6 7 w)
qed

lemma bind_whole_argument:
  assumes ne: "g \<noteq> new_sdfg"
  shows "\<exists>t' f'.
    bind_local_argument ext g new_sdfg substate array_name array (Name_Node n) local_name
      arg_index read_names write_names (t, f) = Inr (t', f') \<and>
    graphs t' g = graphs t g \<and> views t' = views t \<and> view_list f' = view_list f \<and>
    name_mapping t' new_sdfg local_name = Some (find_new_name ext (graphs t new_sdfg) local_name) \<and>
    arrays (graphs t' new_sdfg) = (arrays (graphs t new_sdfg))
      (find_new_name ext (graphs t new_sdfg) local_name \<mapsto>
         (if shape array = [] \<or> shape array = [IntE 1]
          then \<lparr>kind = ScalarDesc, dtype = dtype array, shape = [], strides = [], offset = [],
                 storage = storage array, transient = False\<rparr>
          else \<lparr>kind = ArrayDesc, dtype = dtype array, shape = shape array,
                 strides = strides array, offset = offset array,
                 storage = storage array, transient = False\<rparr>))"
  using ne
  by (auto simp: bind_local_argument_def Let_def add_scalar_def add_array_def)

lemma wire_views_no_entry:
  "\<forall>elem \<in> set vs. snd (snd (snd elem)) \<noteq> arg_index \<Longrightarrow>
   wire_views g substate internal_sdfg mapped_name arg_index local_name conn read_names
     write_names vs found t = Inr (found, t)"
  by (induction vs) auto

lemma wire_whole_argument:
  assumes st: "substate < length (states (graphs t g))"
    and b: "name_mapping t g n = Some base"
    and c: "name_mapping t new_sdfg local_name = Some conn"
    and nv: "\<forall>elem \<in> set view_entries. snd (snd (snd elem)) \<noteq> arg_index"
  shows "\<exists>t'.
    wire_argument ext g new_sdfg substate internal_sdfg (Name_Node n) local_name arg_index
      read_names write_names view_entries t = Inr t' \<and>
    arrays (graphs t' g) = arrays (graphs t g) \<and>
    nodes (states (graphs t' g) ! substate) =
      nodes (states (graphs t g) ! substate) @
      (if local_name \<in> set write_names then [AccessNode base] else []) @
      (if local_name \<in> set read_names then [AccessNode base] else []) \<and>
    dataflow (states (graphs t' g) ! substate) =
      dataflow (states (graphs t g) ! substate) @
      (if local_name \<in> set write_names
       then [\<lparr>df_src = internal_sdfg, src_conn = Some conn,
               df_dst = length (nodes (states (graphs t g) ! substate)), dst_conn = None,
               df_memlet = Memlet_text base
                 (argument_memlet ext (Name_Node n) (arrays (graphs t g) base) g t)\<rparr>]
       else []) @
      (if local_name \<in> set read_names
       then [\<lparr>df_src = length (nodes (states (graphs t g) ! substate)) +
                 (if local_name \<in> set write_names then 1 else 0),
               src_conn = None, df_dst = internal_sdfg, dst_conn = Some conn,
               df_memlet = Memlet_text base
                 (argument_memlet ext (Name_Node n) (arrays (graphs t g) base) g t)\<rparr>]
       else [])"
  using st b c wire_views_no_entry [OF nv]
  by (auto simp: wire_argument_def argument_container_def Let_def add_memlet_write_def
        add_memlet_read_def add_access_def case_prod_beta)


lemma bind_scalar_slice:
  assumes ok: "all_or_index indices" and rank: "length indices = length (shape array)"
    and ls: "length (strides array) = length (shape array)"
    and lo: "length (offset array) = length (shape array)"
    and sc: "select_all_axes indices (shape array) = [] \<or>
      select_all_axes indices (shape array) = [IntE 1]"
    and ne: "g \<noteq> new_sdfg"
  shows "\<exists>t' f'.
    bind_local_argument ext g new_sdfg substate array_name array
      (Array_Subscript_Node n indices) local_name arg_index read_names write_names (t, f) =
      Inr (t', f') \<and>
    graphs t' g = graphs t g \<and> views t' = views t \<and> view_list f' = view_list f \<and>
    arrays (graphs t' new_sdfg) = (arrays (graphs t new_sdfg))
      (find_new_name ext (graphs t new_sdfg) local_name \<mapsto>
         \<lparr>kind = ScalarDesc, dtype = dtype array, shape = [], strides = [], offset = [],
           storage = storage array, transient = False\<rparr>)"
proof -
  define mapped where "mapped = find_new_name ext (graphs t new_sdfg) local_name"
  define t2 where "t2 = t\<lparr>name_mapping :=
      (name_mapping t)(new_sdfg := (name_mapping t new_sdfg)(local_name \<mapsto> mapped)),
      all_array_names := all_array_names t @ [mapped]\<rparr>"
  have scan: "subscript_scan ext g t2 array indices 0 0 [] [] (strides array) (offset array) =
      Inr (select_all_axes indices (shape array), index_values ext g t2 indices,
           select_all_axes indices (strides array), select_all_axes indices (offset array))"
    using subscript_scan_full_rank [of indices "strides array" "offset array" 0 array 0 "[]" "[]"
        ext g t2 "[]" "[]"] ok rank ls lo by simp
  have g2: "graphs t2 = graphs t" "views t2 = views t" by (simp_all add: t2_def)
  show ?thesis
    using sc scan ne g2
    by (auto simp: bind_local_argument_def Let_def mapped_def [symmetric] t2_def [symmetric]
          add_scalar_def)
qed

text \<open>
  Claim C3, as amended. The argument is one whose base array \<open>array_name\<close>, with
  descriptor \<open>array\<close>, is a container of the calling graph \<open>g\<close>; the call is lowered in
  the state \<open>substate\<close> of \<open>g\<close>, the callee in the new graph.
  \<^item> A subscripted argument with a full-rank index list of select-all axes and concrete
    offsets, whose reduced shape (the sizes of the select-all axes) is neither empty
    nor \<open>[1]\<close>: the strides and offsets lose the entries of the concrete axes and keep
    those of the select-all axes; a view is added to the calling graph with the
    reduced shape, the reduced strides and offsets \<open>0\<close>; the formal parameter is
    declared in the new graph with the reduced shape, strides and offsets; the state
    gets an edge from an access node of the base array to one of the view exactly
    when the formal parameter is read, and an edge from an access node of the view to
    one of the base array exactly when it is written.
  \<^item> When the reduced shape is empty or \<open>[1]\<close>, no view is created: the calling graph,
    the view counter and the list of views are unchanged and the formal parameter is
    declared as a scalar.
  \<^item> A whole-array argument (a plain name) creates no view either: the calling graph
    is unchanged, the formal parameter gets the shape, strides and offsets of the base
    array (or is a scalar when the shape is empty or \<open>[1]\<close>), and the memlets of the
    invocation node are drawn to access nodes of the base container itself.
\<close>

theorem view_for_sliced_argument:
  "(g \<noteq> new_sdfg \<and> substate < length (states (graphs t g)) \<and> all_or_index indices \<and>
    length indices = length (shape array) \<and> length (strides array) = length (shape array) \<and>
    length (offset array) = length (shape array) \<and>
    select_all_axes indices (shape array) \<noteq> [] \<and>
    select_all_axes indices (shape array) \<noteq> [IntE 1] \<longrightarrow>
      (\<exists>t' f' wv rv.
         bind_local_argument ext g new_sdfg substate array_name array
           (Array_Subscript_Node n indices) local_name arg_index read_names write_names (t, f) =
           Inr (t', f') \<and>
         arrays (graphs t' g) = (arrays (graphs t g))
           (array_name @ ''_view_'' @ str_nat (views t) \<mapsto>
              \<lparr>kind = ViewDesc, dtype = dtype array,
               shape = select_all_axes indices (shape array),
               strides = select_all_axes indices (strides array),
               offset = map (\<lambda>index. 0) (select_all_axes indices (offset array)),
               storage = storage array, transient = True\<rparr>) \<and>
         arrays (graphs t' new_sdfg) = (arrays (graphs t new_sdfg))
           (find_new_name ext (graphs t new_sdfg) local_name \<mapsto>
              \<lparr>kind = ArrayDesc, dtype = dtype array,
               shape = select_all_axes indices (shape array),
               strides = select_all_axes indices (strides array),
               offset = select_all_axes indices (offset array),
               storage = storage array, transient = False\<rparr>) \<and>
         name_mapping t' new_sdfg local_name =
           Some (find_new_name ext (graphs t new_sdfg) local_name) \<and>
         views t' = views t + 1 \<and>
         view_list f' = view_list f @ [(array_name, wv, rv, arg_index)] \<and>
         (wv \<noteq> None) = (local_name \<in> set read_names) \<and>
         (rv \<noteq> None) = (local_name \<in> set write_names) \<and>
         nodes (states (graphs t' g) ! substate) =
           nodes (states (graphs t g) ! substate) @
           (if local_name \<in> set read_names
            then [AccessNode array_name, AccessNode (array_name @ ''_view_'' @ str_nat (views t))]
            else []) @
           (if local_name \<in> set write_names
            then [AccessNode (array_name @ ''_view_'' @ str_nat (views t)), AccessNode array_name]
            else []) \<and>
         map (\<lambda>e. (nodes (states (graphs t' g) ! substate) ! df_src e, src_conn e,
                   nodes (states (graphs t' g) ! substate) ! df_dst e, dst_conn e))
           (drop (length (dataflow (states (graphs t g) ! substate)))
              (dataflow (states (graphs t' g) ! substate))) =
           (if local_name \<in> set read_names
            then [(AccessNode array_name, None,
                   AccessNode (array_name @ ''_view_'' @ str_nat (views t)), Some ''views'')]
            else []) @
           (if local_name \<in> set write_names
            then [(AccessNode (array_name @ ''_view_'' @ str_nat (views t)), Some ''views2'',
                   AccessNode array_name, None)]
            else []))) \<and>
   (g \<noteq> new_sdfg \<and> all_or_index indices \<and>
    length indices = length (shape array) \<and> length (strides array) = length (shape array) \<and>
    length (offset array) = length (shape array) \<and>
    (select_all_axes indices (shape array) = [] \<or>
     select_all_axes indices (shape array) = [IntE 1]) \<longrightarrow>
      (\<exists>t' f'.
         bind_local_argument ext g new_sdfg substate array_name array
           (Array_Subscript_Node n indices) local_name arg_index read_names write_names (t, f) =
           Inr (t', f') \<and>
         graphs t' g = graphs t g \<and> views t' = views t \<and> view_list f' = view_list f \<and>
         arrays (graphs t' new_sdfg) = (arrays (graphs t new_sdfg))
           (find_new_name ext (graphs t new_sdfg) local_name \<mapsto>
              \<lparr>kind = ScalarDesc, dtype = dtype array, shape = [], strides = [], offset = [],
                storage = storage array, transient = False\<rparr>))) \<and>
   (g \<noteq> new_sdfg \<longrightarrow>
      (\<exists>t' f'.
         bind_local_argument ext g new_sdfg substate array_name array (Name_Node n) local_name
           arg_index read_names write_names (t, f) = Inr (t', f') \<and>
         graphs t' g = graphs t g \<and> views t' = views t \<and> view_list f' = view_list f \<and>
         name_mapping t' new_sdfg local_name =
           Some (find_new_name ext (graphs t new_sdfg) local_name) \<and>
         arrays (graphs t' new_sdfg) = (arrays (graphs t new_sdfg))
           (find_new_name ext (graphs t new_sdfg) local_name \<mapsto>
              (if shape array = [] \<or> shape array = [IntE 1]
               then \<lparr>kind = ScalarDesc, dtype = dtype array, shape = [], strides = [],
                      offset = [], storage = storage array, transient = False\<rparr>
               else \<lparr>kind = ArrayDesc, dtype = dtype array, shape = shape array,
                      strides = strides array, offset = offset array,
                      storage = storage array, transient = False\<rparr>)))) \<and>
   (substate < length (states (graphs u g)) \<and> name_mapping u g n = Some base \<and>
    name_mapping u new_sdfg local_name = Some conn \<and>
    (\<forall>elem \<in> set view_entries. snd (snd (snd elem)) \<noteq> arg_index) \<longrightarrow>
      (\<exists>u'.
         wire_argument ext g new_sdfg substate internal_sdfg (Name_Node n) local_name arg_index
           read_names write_names view_entries u = Inr u' \<and>
         arrays (graphs u' g) = arrays (graphs u g) \<and>
         nodes (states (graphs u' g) ! substate) =
           nodes (states (graphs u g) ! substate) @
           (if local_name \<in> set write_names then [AccessNode base] else []) @
           (if local_name \<in> set read_names then [AccessNode base] else []) \<and>
         dataflow (states (graphs u' g) ! substate) =
           dataflow (states (graphs u g) ! substate) @
           (if local_name \<in> set write_names
            then [\<lparr>df_src = internal_sdfg, src_conn = Some conn,
                    df_dst = length (nodes (states (graphs u g) ! substate)), dst_conn = None,
                    df_memlet = Memlet_text base
                      (argument_memlet ext (Name_Node n) (arrays (graphs u g) base) g u)\<rparr>]
            else []) @
           (if local_name \<in> set read_names
            then [\<lparr>df_src = length (nodes (states (graphs u g) ! substate)) +
                      (if local_name \<in> set write_names then 1 else 0),
                    src_conn = None, df_dst = internal_sdfg, dst_conn = Some conn,
                    df_memlet = Memlet_text base
                      (argument_memlet ext (Name_Node n) (arrays (graphs u g) base) g u)\<rparr>]
            else [])))"
  apply (intro conjI impI)
  subgoal by (elim conjE) (rule bind_sliced_argument)
  subgoal by (elim conjE) (rule bind_scalar_slice)
  subgoal by (rule bind_whole_argument)
  subgoal by (elim conjE) (rule wire_whole_argument)
  done

text \<open>
  Claim C3 as stated fails for the argument \<open>b(:, 3)\<close> of an array \<open>b\<close> of shape \<open>(1, 5)\<close>:
  the index list is full-rank and mixes a select-all axis with a concrete offset, the
  reduced shape is \<open>[1]\<close>, and no view is created: the calling graph has no view
  container, the view counter stays \<open>0\<close>, the list of views stays empty, and the formal
  parameter is a scalar of the new graph.
\<close>

theorem view_for_sliced_argument_counterexample:
  "map_sum id
     (\<lambda>(t', f'). (arrays (graphs t' 0) ''b_view_0'', views t', view_list f',
                 dataflow (states (graphs t' 0) ! 0),
                 map_option kind (arrays (graphs t' 1) ''x'')))
     (bind_local_argument example_collaborators 0 1 0 ''b'' array_1_5
        (Array_Subscript_Node ''b'' [ParDecl_Node ''ALL'', Index_Node ''3'']) ''x'' 0
        [''x''] [''x''] (call_site, empty_frame)) =
   Inr (None, 0, [], [], Some ScalarDesc)"
  by (simp add: bind_local_argument_def array_1_5_def empty_frame_def call_site_def
        example_collaborators_def AST_translator_init_def SDFG_def Let_def pop_def
        vardecl2sdfg_def get_dace_type_def sizes_of_def offsets_of_def strides_of_def
        subroutine2sdfg_enter_def add_simple_state_to_sdfg_def add_state_def
        add_scalar_def add_array_def add_datadesc_def context_add_container_def)


lemma call_site_facts:
  "length (states (graphs call_site 0)) = 1" "views call_site = 0"
  "nodes (states (graphs call_site 0) ! 0) = []" "dataflow (states (graphs call_site 0) ! 0) = []"
  "name_mapping call_site 0 ''a'' = Some ''a''" "arrays (graphs call_site 0) ''a'' = Some array_5_7"
  "arrays (graphs call_site (Suc 0)) = Map.empty" "symbols (graphs call_site (Suc 0)) = Map.empty"
  by (simp_all add: call_site_def array_5_7_def
        example_collaborators_def AST_translator_init_def SDFG_def Let_def
        vardecl2sdfg_def get_dace_type_def sizes_of_def offsets_of_def strides_of_def
        subroutine2sdfg_enter_def add_simple_state_to_sdfg_def add_state_def
        add_scalar_def add_array_def add_datadesc_def context_add_container_def)

theorem view_for_sliced_argument_witness:
  "(\<exists>t' f'.
      bind_local_argument example_collaborators 0 1 0 ''a'' array_5_7
        (Array_Subscript_Node ''a'' [ParDecl_Node ''ALL'', Index_Node ''3'']) ''x'' 0
        [''x''] [] (call_site, empty_frame) = Inr (t', f') \<and>
      map_option shape (arrays (graphs t' 0) ''a_view_0'') = Some [SymE ''5''] \<and>
      map_option strides (arrays (graphs t' 0) ''a_view_0'') = Some [IntE 1] \<and>
      map_option offset (arrays (graphs t' 0) ''a_view_0'') = Some [0] \<and>
      map_option shape (arrays (graphs t' 1) ''x'') = Some [SymE ''5''] \<and>
      views t' = 1 \<and>
      nodes (states (graphs t' 0) ! 0) = [AccessNode ''a'', AccessNode ''a_view_0'']) \<and>
   (\<exists>t' f'.
      bind_local_argument example_collaborators 0 1 0 ''b'' array_1_5
        (Array_Subscript_Node ''b'' [ParDecl_Node ''ALL'', Index_Node ''3'']) ''x'' 0
        [''x''] [] (call_site, empty_frame) = Inr (t', f') \<and>
      views t' = 0 \<and> view_list f' = [] \<and>
      map_option kind (arrays (graphs t' 1) ''x'') = Some ScalarDesc) \<and>
   (\<exists>t' f'.
      bind_local_argument example_collaborators 0 1 0 ''a'' array_5_7 (Name_Node ''a'') ''x'' 0
        [''x''] [] (call_site, empty_frame) = Inr (t', f') \<and>
      views t' = 0 \<and> view_list f' = [] \<and>
      map_option shape (arrays (graphs t' 1) ''x'') = Some [SymE ''5'', SymE ''7'']) \<and>
   (\<exists>u'.
      wire_argument example_collaborators 0 1 0 0 (Name_Node ''a'') ''x'' 0 [''x''] [] []
        call_site_bound = Inr u' \<and>
      nodes (states (graphs u' 0) ! 0) = [AccessNode ''a''] \<and>
      map df_memlet (dataflow (states (graphs u' 0) ! 0)) = [Memlet_text ''a'' ''0:n''])"
proof -
  have fn: "find_new_name example_collaborators (graphs call_site (Suc 0)) ''x'' = ''x''"
    by (simp add: example_collaborators_def call_site_facts)
  have sel: "select_all_axes [ParDecl_Node ''ALL'', Index_Node ''3''] (shape array_5_7) = [SymE ''5'']"
    "select_all_axes [ParDecl_Node ''ALL'', Index_Node ''3''] (strides array_5_7) = [IntE 1]"
    "select_all_axes [ParDecl_Node ''ALL'', Index_Node ''3''] (offset array_5_7) = [- 1]"
    "select_all_axes [ParDecl_Node ''ALL'', Index_Node ''3''] (shape array_1_5) = [IntE 1]"
    "all_or_index [ParDecl_Node ''ALL'', Index_Node ''3'' :: string index]"
    by (simp_all add: select_all_axes_def array_5_7_def array_1_5_def all_or_index_def)
  have len: "length (shape array_5_7) = 2" "length (strides array_5_7) = 2"
    "length (offset array_5_7) = 2" "length (shape array_1_5) = 2" "length (strides array_1_5) = 2"
    "length (offset array_1_5) = 2"
    by (simp_all add: array_5_7_def array_1_5_def)
  have sh: "shape array_5_7 = [SymE ''5'', SymE ''7'']" by (simp add: array_5_7_def)
  note a = view_for_sliced_argument [where g = 0 and new_sdfg = 1 and substate = 0
      and t = call_site and indices = "[ParDecl_Node ''ALL'', Index_Node ''3'']"
      and array = array_5_7 and ext = example_collaborators and array_name = "''a''"
      and n = "''a''" and local_name = "''x''" and arg_index = 0 and read_names = "[''x'']"
      and write_names = "[]" and f = empty_frame and u = call_site_bound and base = "''a''"
      and conn = "''x''" and view_entries = "[]" and internal_sdfg = 0]
  note b = view_for_sliced_argument [where g = 0 and new_sdfg = 1 and substate = 0
      and t = call_site and indices = "[ParDecl_Node ''ALL'', Index_Node ''3'']"
      and array = array_1_5 and ext = example_collaborators and array_name = "''b''"
      and n = "''b''" and local_name = "''x''" and arg_index = 0 and read_names = "[''x'']"
      and write_names = "[]" and f = empty_frame]
  from a [THEN conjunct1] have 1: "\<exists>t' f'.
      bind_local_argument example_collaborators 0 1 0 ''a'' array_5_7
        (Array_Subscript_Node ''a'' [ParDecl_Node ''ALL'', Index_Node ''3'']) ''x'' 0
        [''x''] [] (call_site, empty_frame) = Inr (t', f') \<and>
      map_option shape (arrays (graphs t' 0) ''a_view_0'') = Some [SymE ''5''] \<and>
      map_option strides (arrays (graphs t' 0) ''a_view_0'') = Some [IntE 1] \<and>
      map_option offset (arrays (graphs t' 0) ''a_view_0'') = Some [0] \<and>
      map_option shape (arrays (graphs t' 1) ''x'') = Some [SymE ''5''] \<and>
      views t' = 1 \<and>
      nodes (states (graphs t' 0) ! 0) = [AccessNode ''a'', AccessNode ''a_view_0'']"
    by (auto simp: call_site_facts sel len fn str_nat.simps)
  from b [THEN conjunct2, THEN conjunct1] have 2: "\<exists>t' f'.
      bind_local_argument example_collaborators 0 1 0 ''b'' array_1_5
        (Array_Subscript_Node ''b'' [ParDecl_Node ''ALL'', Index_Node ''3'']) ''x'' 0
        [''x''] [] (call_site, empty_frame) = Inr (t', f') \<and>
      views t' = 0 \<and> view_list f' = [] \<and>
      map_option kind (arrays (graphs t' 1) ''x'') = Some ScalarDesc"
    by (auto simp: call_site_facts sel len fn empty_frame_def)
  from a [THEN conjunct2, THEN conjunct2, THEN conjunct1] have 3: "\<exists>t' f'.
      bind_local_argument example_collaborators 0 1 0 ''a'' array_5_7 (Name_Node ''a'') ''x'' 0
        [''x''] [] (call_site, empty_frame) = Inr (t', f') \<and>
      views t' = 0 \<and> view_list f' = [] \<and>
      map_option shape (arrays (graphs t' 1) ''x'') = Some [SymE ''5'', SymE ''7'']"
    by (auto simp: call_site_facts sh fn empty_frame_def)
  from a [THEN conjunct2, THEN conjunct2, THEN conjunct2] have 4: "\<exists>u'.
      wire_argument example_collaborators 0 1 0 0 (Name_Node ''a'') ''x'' 0 [''x''] [] []
        call_site_bound = Inr u' \<and>
      nodes (states (graphs u' 0) ! 0) = [AccessNode ''a''] \<and>
      map df_memlet (dataflow (states (graphs u' 0) ! 0)) = [Memlet_text ''a'' ''0:n'']"
    by (auto simp: call_site_bound_def call_site_facts argument_memlet_def sh
          example_collaborators_def)
  from 1 2 3 4 show ?thesis by (intro conjI)
qed

subsection \<open>The arity check\<close>



subsection \<open>Library states\<close>

lemma add_memlet_simps [simp]:
  "st < length (states (graphs t g)) \<Longrightarrow>
     dataflow (states (graphs (add_memlet_read g st v n c m t) g) ! st) =
       dataflow (states (graphs t g) ! st) @
         [\<lparr>df_src = length (nodes (states (graphs t g) ! st)), src_conn = None, df_dst = n,
           dst_conn = Some c, df_memlet = Memlet_text v m\<rparr>]"
  "st < length (states (graphs t g)) \<Longrightarrow>
     dataflow (states (graphs (add_memlet_write g st v n c m t) g) ! st) =
       dataflow (states (graphs t g) ! st) @
         [\<lparr>df_src = n, src_conn = Some c, df_dst = length (nodes (states (graphs t g) ! st)),
           dst_conn = None, df_memlet = Memlet_text v m\<rparr>]"
  "length (states (graphs (add_memlet_read g st v n c m t) g')) = length (states (graphs t g'))"
  "length (states (graphs (add_memlet_write g st v n c m t) g')) = length (states (graphs t g'))"
  "name_mapping (add_memlet_read g st v n c m t) = name_mapping t"
  "name_mapping (add_memlet_write g st v n c m t) = name_mapping t"
  by (simp_all add: add_memlet_read_def add_memlet_write_def add_access_def case_prod_beta)

lemma libstate_memlets_effect:
  assumes "substate < length (states (graphs t g))"
    and "libstate_memlets i g new_sdfg substate internal_sdfg read_names write_names t = Inr t'"
  shows "\<exists>new.
      dataflow (states (graphs t' g) ! substate) = dataflow (states (graphs t g) ! substate) @ new \<and>
      map (edge_at internal_sdfg) new = libstate_edges t g new_sdfg read_names write_names [i]"
    "length (states (graphs t' g)) = length (states (graphs t g))"
    "name_mapping t' = name_mapping t"
  using assms
  by (auto simp: libstate_memlets_def libstate_edges_def edge_at_def Let_def
        split: if_splits option.splits)

lemma libstate_edges_Cons:
  "libstate_edges t g new_sdfg read_names write_names (i # libs) =
     libstate_edges t g new_sdfg read_names write_names [i] @
     libstate_edges t g new_sdfg read_names write_names libs"
  by (simp add: libstate_edges_def)

lemma libstate_edges_mapping:
  assumes "name_mapping t' = name_mapping t"
  shows "libstate_edges t' g new_sdfg read_names write_names libs =
     libstate_edges t g new_sdfg read_names write_names libs"
  unfolding libstate_edges_def assms by (rule refl)

lemma libstates_memlets_effect:
  "substate < length (states (graphs t g)) \<Longrightarrow>
   libstates_memlets libs g new_sdfg substate internal_sdfg read_names write_names t = Inr t' \<Longrightarrow>
   (\<exists>new.
      dataflow (states (graphs t' g) ! substate) = dataflow (states (graphs t g) ! substate) @ new \<and>
      map (edge_at internal_sdfg) new = libstate_edges t g new_sdfg read_names write_names libs)"
proof (induction libs arbitrary: t)
  case Nil
  then show ?case by (simp add: libstate_edges_def)
next
  case (Cons i libs)
  from Cons.prems(2) obtain t1 where
    1: "libstate_memlets i g new_sdfg substate internal_sdfg read_names write_names t = Inr t1" and
    2: "libstates_memlets libs g new_sdfg substate internal_sdfg read_names write_names t1 = Inr t'"
    by (auto split: sum.splits)
  note e = libstate_memlets_effect [OF Cons.prems(1) 1]
  from e(1) obtain new1 where n1:
    "dataflow (states (graphs t1 g) ! substate) = dataflow (states (graphs t g) ! substate) @ new1"
    "map (edge_at internal_sdfg) new1 = libstate_edges t g new_sdfg read_names write_names [i]"
    by blast
  have st1: "substate < length (states (graphs t1 g))" using Cons.prems(1) e(2) by simp
  from Cons.IH [OF st1 2] obtain new2 where n2:
    "dataflow (states (graphs t' g) ! substate) = dataflow (states (graphs t1 g) ! substate) @ new2"
    "map (edge_at internal_sdfg) new2 = libstate_edges t1 g new_sdfg read_names write_names libs"
    by blast
  have "dataflow (states (graphs t' g) ! substate) =
      dataflow (states (graphs t g) ! substate) @ (new1 @ new2)"
    using n1(1) n2(1) by simp
  moreover have "map (edge_at internal_sdfg) (new1 @ new2) =
      libstate_edges t g new_sdfg read_names write_names (i # libs)"
    using n1(2) n2(2) libstate_edges_mapping [OF e(3)]
    by (simp add: libstate_edges_Cons [of t g new_sdfg read_names write_names i libs])
  ultimately show ?case by (intro exI conjI)
qed

lemma libstates_memlets_unused:
  "set libs \<inter> (set read_names \<union> set write_names) = {} \<Longrightarrow>
   libstates_memlets libs g new_sdfg substate internal_sdfg read_names write_names t = Inr t"
  by (induction libs) (auto simp: libstate_memlets_def)

lemma libstates_declare_unused:
  "set libs \<inter> (set read_names \<union> set write_names) = {} \<Longrightarrow>
   ins_in_new_sdfg (snd (libstates_declare ext libs new_sdfg read_names write_names (t, f))) =
     ins_in_new_sdfg f \<and>
   outs_in_new_sdfg (snd (libstates_declare ext libs new_sdfg read_names write_names (t, f))) =
     outs_in_new_sdfg f"
  by (induction libs arbitrary: t f) (auto simp: Let_def)


lemma call2sdfg_libstate_effect:
  assumes "substate < length (states (graphs u g))" and "name_mapping u g l = Some m"
  shows "\<exists>u'. call2sdfg_libstate (Some l) g substate tasklet u = Inr u' \<and>
      map (edge_at tasklet)
        (drop (length (dataflow (states (graphs u g) ! substate)))
           (dataflow (states (graphs u' g) ! substate))) =
        [(Some (m @ ''_task''), None, Memlet_text m ''0''),
         (None, Some (m @ ''_task_out''), Memlet_text m ''0'')]"
  using assms by (simp add: call2sdfg_libstate_def edge_at_def)

text \<open>
  Claim C5, as amended. For an inlined procedure call, the second loop over the
  registered library states gives the invocation node, for each library state in turn,
  an outgoing (write) edge exactly if the callee writes the library state by name and
  an incoming (read) edge exactly if the callee reads it by name, each on the connector
  the library state is bound to in the new graph, with the range \<open>0\<close> of the container it
  is bound to in the calling graph. Library states that the callee neither reads nor
  writes by name get no edge, and the first loop enters no connector for them. The
  tasklet of an external library call with a library state gets both edges in every
  case.
\<close>

theorem library_state_edges_follow_names:
  "(substate < length (states (graphs t g)) \<and>
    libstates_memlets (libstates t) g new_sdfg substate internal_sdfg read_names write_names t =
      Inr t' \<longrightarrow>
      map (edge_at internal_sdfg)
        (drop (length (dataflow (states (graphs t g) ! substate)))
           (dataflow (states (graphs t' g) ! substate))) =
        libstate_edges t g new_sdfg read_names write_names (libstates t)) \<and>
   (set (libstates t) \<inter> (set read_names \<union> set write_names) = {} \<longrightarrow>
      libstates_memlets (libstates t) g new_sdfg substate internal_sdfg read_names write_names t =
        Inr t \<and>
      ins_in_new_sdfg
        (snd (libstates_declare ext (libstates t) new_sdfg read_names write_names (t, f))) =
        ins_in_new_sdfg f \<and>
      outs_in_new_sdfg
        (snd (libstates_declare ext (libstates t) new_sdfg read_names write_names (t, f))) =
        outs_in_new_sdfg f) \<and>
   (substate < length (states (graphs u g)) \<and> name_mapping u g l = Some m \<longrightarrow>
      (\<exists>u'. call2sdfg_libstate (Some l) g substate tasklet u = Inr u' \<and>
         map (edge_at tasklet)
           (drop (length (dataflow (states (graphs u g) ! substate)))
              (dataflow (states (graphs u' g) ! substate))) =
           [(Some (m @ ''_task''), None, Memlet_text m ''0''),
            (None, Some (m @ ''_task_out''), Memlet_text m ''0'')]))"
proof (intro conjI impI)
  assume a: "substate < length (states (graphs t g)) \<and>
    libstates_memlets (libstates t) g new_sdfg substate internal_sdfg read_names write_names t =
      Inr t'"
  from libstates_memlets_effect [of substate t g "libstates t" new_sdfg internal_sdfg
      read_names write_names t'] a
  obtain new where
    "dataflow (states (graphs t' g) ! substate) = dataflow (states (graphs t g) ! substate) @ new"
    "map (edge_at internal_sdfg) new =
      libstate_edges t g new_sdfg read_names write_names (libstates t)"
    by blast
  then show "map (edge_at internal_sdfg)
        (drop (length (dataflow (states (graphs t g) ! substate)))
           (dataflow (states (graphs t' g) ! substate))) =
        libstate_edges t g new_sdfg read_names write_names (libstates t)"
    by simp
next
  assume "set (libstates t) \<inter> (set read_names \<union> set write_names) = {}"
  then show "libstates_memlets (libstates t) g new_sdfg substate internal_sdfg read_names
      write_names t = Inr t"
    by (rule libstates_memlets_unused)
next
  assume a: "set (libstates t) \<inter> (set read_names \<union> set write_names) = {}"
  from libstates_declare_unused [OF a]
  show "ins_in_new_sdfg
        (snd (libstates_declare ext (libstates t) new_sdfg read_names write_names (t, f))) =
        ins_in_new_sdfg f" by blast
  from libstates_declare_unused [OF a]
  show "outs_in_new_sdfg
        (snd (libstates_declare ext (libstates t) new_sdfg read_names write_names (t, f))) =
        outs_in_new_sdfg f" by blast
next
  assume "substate < length (states (graphs u g)) \<and> name_mapping u g l = Some m"
  then show "\<exists>u'. call2sdfg_libstate (Some l) g substate tasklet u = Inr u' \<and>
         map (edge_at tasklet)
           (drop (length (dataflow (states (graphs u g) ! substate)))
              (dataflow (states (graphs u' g) ! substate))) =
           [(Some (m @ ''_task''), None, Memlet_text m ''0''),
            (None, Some (m @ ''_task_out''), Memlet_text m ''0'')]"
    using call2sdfg_libstate_effect by blast
qed

lemma call_site_lib_facts:
  "length (states (graphs call_site_lib 0)) = 1" "libstates call_site_lib = [''lib'']"
  "name_mapping call_site_lib = (\<lambda>g. [''lib'' \<mapsto> ''lib''])"
  "nodes (states (graphs call_site_lib 0) ! 0) = [NestedSDFG ''f'' [] []]"
  "dataflow (states (graphs call_site_lib 0) ! 0) = []"
  by (simp_all add: call_site_lib_def add_nested_sdfg_def add_node_def update_state_def Let_def
        call_site_facts)

text \<open>
  Claim C5 as stated fails at the call site \<open>call_site_lib\<close>, where the library state
  \<open>lib\<close> is registered and the callee neither reads nor writes it by name: the loops
  give the invocation node no connector and no edge for it.
\<close>

theorem library_state_edges_counterexample:
  "libstates call_site_lib = [''lib''] \<and>
   nodes (states (graphs call_site_lib 0) ! 0) = [NestedSDFG ''f'' [] []] \<and>
   map_sum id (\<lambda>t'. dataflow (states (graphs t' 0) ! 0))
     (libstates_memlets (libstates call_site_lib) 0 1 0 0 [''x''] [''x''] call_site_lib) = Inr [] \<and>
   snd (libstates_declare example_collaborators (libstates call_site_lib) 1 [''x''] [''x'']
          (call_site_lib, empty_frame)) = empty_frame"
  by (simp add: call_site_lib_facts libstate_memlets_def empty_frame_def Let_def)

theorem library_state_edges_follow_names_witness:
  "(\<exists>t'. libstates_memlets (libstates call_site_lib) 0 1 0 0 [''lib''] [] call_site_lib = Inr t' \<and>
      map (edge_at 0) (dataflow (states (graphs t' 0) ! 0)) =
        [(Some ''lib'', None, Memlet_text ''lib'' ''0'')]) \<and>
   libstates_memlets (libstates call_site_lib) 0 1 0 0 [''x''] [''x''] call_site_lib =
     Inr call_site_lib \<and>
   (\<exists>u'. call2sdfg_libstate (Some ''lib'') 0 0 0 call_site_lib = Inr u' \<and>
      map (edge_at 0) (dataflow (states (graphs u' 0) ! 0)) =
        [(Some ''lib_task'', None, Memlet_text ''lib'' ''0''),
         (None, Some ''lib_task_out'', Memlet_text ''lib'' ''0'')])"
proof -
  have r: "\<exists>t'. libstates_memlets (libstates call_site_lib) 0 1 0 0 [''lib''] [] call_site_lib =
      Inr t'"
    by (simp add: call_site_lib_facts libstate_memlets_def)
  then obtain t' where a:
    "libstates_memlets (libstates call_site_lib) 0 1 0 0 [''lib''] [] call_site_lib = Inr t'"
    by blast
  note th1 = library_state_edges_follow_names [where t = call_site_lib and g = 0
      and new_sdfg = 1 and substate = 0 and internal_sdfg = 0 and read_names = "[''lib'']"
      and write_names = "[]" and t' = t' and u = call_site_lib and l = "''lib''"
      and m = "''lib''" and tasklet = 0]
  note th2 = library_state_edges_follow_names [where t = call_site_lib and g = 0
      and new_sdfg = 1 and substate = 0 and internal_sdfg = 0 and read_names = "[''x'']"
      and write_names = "[''x'']" and ext = example_collaborators and f = empty_frame]
  from th1 [THEN conjunct1] a have 1:
    "map (edge_at 0) (dataflow (states (graphs t' 0) ! 0)) =
        [(Some ''lib'', None, Memlet_text ''lib'' ''0'')]"
    by (simp add: call_site_lib_facts libstate_edges_def)
  from th2 [THEN conjunct2, THEN conjunct1] have 2:
    "libstates_memlets (libstates call_site_lib) 0 1 0 0 [''x''] [''x''] call_site_lib =
     Inr call_site_lib"
    by (simp add: call_site_lib_facts)
  from th1 [THEN conjunct2, THEN conjunct2] have 3:
    "\<exists>u'. call2sdfg_libstate (Some ''lib'') 0 0 0 call_site_lib = Inr u' \<and>
      map (edge_at 0) (dataflow (states (graphs u' 0) ! 0)) =
        [(Some ''lib_task'', None, Memlet_text ''lib'' ''0''),
         (None, Some ''lib_task_out'', Memlet_text ''lib'' ''0'')]"
    by (simp add: call_site_lib_facts)
  from a 1 have 0:
    "\<exists>t'. libstates_memlets (libstates call_site_lib) 0 1 0 0 [''lib''] [] call_site_lib = Inr t' \<and>
      map (edge_at 0) (dataflow (states (graphs t' 0) ! 0)) =
        [(Some ''lib'', None, Memlet_text ''lib'' ''0'')]"
    by (intro exI conjI)
  from 0 2 3 show ?thesis by (intro conjI)
qed

end
